theory Spec2Isabelle
  imports Complex_Main "HOL-Library.Multiset"
begin

section \<open>Python values and exceptions\<close>

text \<open>
  The exceptions the modelled functions can raise. A function that can raise returns
  \<open>error + 'a\<close>, with \<open>Inl\<close> for the exception that leaves it. \<open>NoSuchObject\<close> is not an
  exception of Python: it is what the heap model of the solver answers when it is asked
  for the list at an address where there is none.
\<close>

datatype error = IndexError | KeyError | ValueError | TransformationError | NoSuchObject

definition bind_e :: "error + 'a \<Rightarrow> ('a \<Rightarrow> error + 'b) \<Rightarrow> error + 'b" where
  "bind_e m f = (case m of Inl e \<Rightarrow> Inl e | Inr v \<Rightarrow> f v)"

text \<open>
  \<open>for _ in range(n): body\<close> on a state: the body runs \<open>n\<close> times, and an exception
  raised by one run ends the loop.
\<close>

fun repeat_e :: "nat \<Rightarrow> ('s \<Rightarrow> error + 's) \<Rightarrow> 's \<Rightarrow> error + 's" where
  "repeat_e 0 body s = Inr s"
| "repeat_e (Suc n) body s = bind_e (body s) (repeat_e n body)"

text \<open>
  \<open>for x in xs: body(x)\<close> on a state, with the same treatment of exceptions.
\<close>

fun for_e :: "'a list \<Rightarrow> ('a \<Rightarrow> 's \<Rightarrow> error + 's) \<Rightarrow> 's \<Rightarrow> error + 's" where
  "for_e [] body s = Inr s"
| "for_e (x # xs) body s = bind_e (body x s) (for_e xs body)"

text \<open>
  Python list subscription \<open>xs[i]\<close>: a negative index counts from the end, and an index
  outside \<open>-len(xs) .. len(xs) - 1\<close> raises \<open>IndexError\<close>.
\<close>

definition py_index :: "'a list \<Rightarrow> int \<Rightarrow> nat option" where
  "py_index xs i =
     (let n = int (length xs); j = (if i < 0 then n + i else i)
      in if 0 \<le> j \<and> j < n then Some (nat j) else None)"

definition getitem :: "'a list \<Rightarrow> int \<Rightarrow> error + 'a" where
  "getitem xs i = (case py_index xs i of None \<Rightarrow> Inl IndexError | Some j \<Rightarrow> Inr (xs ! j))"

definition setitem :: "'a list \<Rightarrow> int \<Rightarrow> 'a \<Rightarrow> error + 'a list" where
  "setitem xs i v = (case py_index xs i of None \<Rightarrow> Inl IndexError | Some j \<Rightarrow> Inr (xs[j := v]))"

section \<open>The facelet state (rubix\_2d.py)\<close>

type_synonym colour = string
type_synonym grid = "colour list list"

text \<open>
  \<open>grid[i][j]\<close> and \<open>grid[i][j] = v\<close>. The rows of the six grids are distinct list
  objects in every state the program builds (the constructor makes each row afresh, and
  the rotations move or rewrite rows without ever sharing one), so a grid is modelled by
  its value and an assignment to a cell replaces the row that holds it.
\<close>

definition getcell :: "grid \<Rightarrow> int \<Rightarrow> int \<Rightarrow> error + colour" where
  "getcell g i j = bind_e (getitem g i) (\<lambda>row. getitem row j)"

definition setcell :: "grid \<Rightarrow> int \<Rightarrow> int \<Rightarrow> colour \<Rightarrow> error + grid" where
  "setcell g i j v =
     bind_e (getitem g i) (\<lambda>row. bind_e (setitem row j v) (\<lambda>row'. setitem g i row'))"

text \<open>
  The attributes of class \<open>Rubix2D\<close>. The names \<open>top\<close> and \<open>back\<close> are taken in
  Isabelle, so these two fields carry a prime.
\<close>

record Rubix2D =
  top' :: grid
  bottom :: grid
  left :: grid
  right :: grid
  front :: grid
  back' :: grid

text \<open>\<open>Rubix2D.__init__\<close>: \<open>[[c] * 3 for _ in range(3)]\<close> for each face.\<close>

definition uniform :: "colour \<Rightarrow> grid" where
  "uniform c = replicate 3 (replicate 3 c)"

definition Rubix2D_init :: Rubix2D where
  "Rubix2D_init =
     \<lparr>top' = uniform ''yellow'', bottom = uniform ''white'', left = uniform ''green'',
      right = uniform ''blue'', front = uniform ''red'', back' = uniform ''orange''\<rparr>"

definition INVERSE :: "int \<rightharpoonup> int" where
  "INVERSE = [0 \<mapsto> 2, 1 \<mapsto> 1, 2 \<mapsto> 0]"

subsection \<open>rotate\_arr\<close>

text \<open>
  \<open>zip(*rows)\<close>: the tuples of the first, second, ... elements of the rows, as many as
  the shortest row has; no tuple at all when there is no row.
\<close>

function zip_star :: "'a list list \<Rightarrow> 'a list list" where
  "zip_star [] = []"
| "zip_star (r # rs) =
     (if list_ex (\<lambda>x. x = []) (r # rs) then []
      else map hd (r # rs) # zip_star (map tl (r # rs)))"
  by pat_completeness auto
termination
  by (relation "measure (\<lambda>rows. length (hd rows))") auto

text \<open>
  One pass of the loop of \<open>rotate_arr\<close>, \<open>arr = list(zip(*arr[::-1]))\<close>, and the function
  itself: \<open>range(iters)\<close> is empty for a negative \<open>iters\<close>, and the closing
  \<open>[list(row) for row in arr]\<close> changes no value.
\<close>

definition rotate_arr_once :: "'a list list \<Rightarrow> 'a list list" where
  "rotate_arr_once arr = zip_star (rev arr)"

definition rotate_arr :: "'a list list \<Rightarrow> int \<Rightarrow> 'a list list" where
  "rotate_arr arr iters = (rotate_arr_once ^^ nat iters) arr"

subsection \<open>The three turns\<close>

text \<open>
  One pass of the loop of \<open>Rubix2D.rotate_x\<close>: the tuple on the right is read first
  (left, front, right, back), then the four rows are assigned (front, right, back, left).
\<close>

definition rotate_x_once :: "int \<Rightarrow> Rubix2D \<Rightarrow> error + Rubix2D" where
  "rotate_x_once y s =
     bind_e (getitem (left s) y) (\<lambda>l.
     bind_e (getitem (front s) y) (\<lambda>f.
     bind_e (getitem (right s) y) (\<lambda>r.
     bind_e (getitem (back' s) y) (\<lambda>b.
     bind_e (setitem (front s) y l) (\<lambda>front'.
     bind_e (setitem (right s) y f) (\<lambda>right'.
     bind_e (setitem (back' s) y r) (\<lambda>back''.
     bind_e (setitem (left s) y b) (\<lambda>left'.
     Inr (s\<lparr>front := front', right := right', back' := back'', left := left'\<rparr>)))))))))"

definition rubix_rotate_x :: "int \<Rightarrow> int \<Rightarrow> Rubix2D \<Rightarrow> error + Rubix2D" where
  "rubix_rotate_x y iters s =
     bind_e (repeat_e (nat iters) (rotate_x_once y) s) (\<lambda>s1.
       let s2 = s1\<lparr>top' := (if y = 0 then rotate_arr (top' s1) (3 * iters) else top' s1)\<rparr>
       in Inr (s2\<lparr>bottom :=
                 (if y = 2 then rotate_arr (bottom s2) (1 * iters) else bottom s2)\<rparr>))"

text \<open>
  One pass of the loop of \<open>Rubix2D.rotate_y\<close>. The four deep copies are the values of the
  grids when the pass starts (\<open>s0\<close>); every read is from them and every write is to the
  live grids. \<open>INVERSE[x]\<close> raises \<open>KeyError\<close> for an \<open>x\<close> that is not 0, 1 or 2.
\<close>

definition rotate_y_once :: "int \<Rightarrow> Rubix2D \<Rightarrow> error + Rubix2D" where
  "rotate_y_once x s0 =
     (case INVERSE x of
        None \<Rightarrow> Inl KeyError
      | Some inv_x \<Rightarrow>
          bind_e
            (for_e [0, 1, 2]
               (\<lambda>index s.
                  bind_e (getcell (top' s0) index x) (\<lambda>v.
                  bind_e (setcell (front s) index x v) (\<lambda>front'.
                  bind_e (getcell (front s0) index x) (\<lambda>w.
                  bind_e (setcell (bottom s) index x w) (\<lambda>bottom'.
                  Inr (s\<lparr>front := front', bottom := bottom'\<rparr>))))))
               s0)
            (for_e (zip [0, 1, 2] [2, 1, 0])
               (\<lambda>(index_1, index_2) s.
                  bind_e (getcell (back' s0) index_2 inv_x) (\<lambda>v.
                  bind_e (setcell (top' s) index_1 x v) (\<lambda>top''.
                  bind_e (getcell (bottom s0) index_2 x) (\<lambda>w.
                  bind_e (setcell (back' s) index_1 inv_x w) (\<lambda>back''.
                  Inr (s\<lparr>top' := top'', back' := back''\<rparr>))))))))"

definition rubix_rotate_y :: "int \<Rightarrow> int \<Rightarrow> Rubix2D \<Rightarrow> error + Rubix2D" where
  "rubix_rotate_y x iters s =
     bind_e (repeat_e (nat iters) (rotate_y_once x) s) (\<lambda>s1.
       let s2 = s1\<lparr>left := (if x = 0 then rotate_arr (left s1) (1 * iters) else left s1)\<rparr>
       in Inr (s2\<lparr>right :=
                 (if x = 2 then rotate_arr (right s2) (3 * iters) else right s2)\<rparr>))"

text \<open>One pass of the loop of \<open>Rubix2D.rotate_z\<close>, read and written as in \<open>rotate_y\<close>.\<close>

definition rotate_z_once :: "int \<Rightarrow> Rubix2D \<Rightarrow> error + Rubix2D" where
  "rotate_z_once z s0 =
     (case INVERSE z of
        None \<Rightarrow> Inl KeyError
      | Some inv_z \<Rightarrow>
          bind_e
            (for_e (zip [0, 1, 2] [2, 1, 0])
               (\<lambda>(index_1, index_2) s.
                  bind_e (getcell (left s0) index_2 z) (\<lambda>v.
                  bind_e (setcell (top' s) z index_1 v) (\<lambda>top''.
                  bind_e (getcell (right s0) index_2 inv_z) (\<lambda>w.
                  bind_e (setcell (bottom s) inv_z index_1 w) (\<lambda>bottom'.
                  Inr (s\<lparr>top' := top'', bottom := bottom'\<rparr>))))))
               s0)
            (for_e [0, 1, 2]
               (\<lambda>index s.
                  bind_e (getcell (top' s0) z index) (\<lambda>v.
                  bind_e (setcell (right s) index inv_z v) (\<lambda>right'.
                  bind_e (getcell (bottom s0) inv_z index) (\<lambda>w.
                  bind_e (setcell (left s) index z w) (\<lambda>left'.
                  Inr (s\<lparr>right := right', left := left'\<rparr>))))))))"

definition rubix_rotate_z :: "int \<Rightarrow> int \<Rightarrow> Rubix2D \<Rightarrow> error + Rubix2D" where
  "rubix_rotate_z z iters s =
     bind_e (repeat_e (nat iters) (rotate_z_once z) s) (\<lambda>s1.
       let s2 = s1\<lparr>back' := (if z = 0 then rotate_arr (back' s1) (3 * iters) else back' s1)\<rparr>
       in Inr (s2\<lparr>front :=
                 (if z = 2 then rotate_arr (front s2) (1 * iters) else front s2)\<rparr>))"

subsection \<open>is\_solved and rotate\_side\<close>

definition is_solved :: "Rubix2D \<Rightarrow> bool" where
  "is_solved s =
     list_all (\<lambda>side. card (set (concat side)) = 1)
       [top' s, bottom s, left s, right s, front s, back' s]"

text \<open>
  \<open>rotate_side\<close>: the \<open>match\<close> statement has the eighteen cases and no default, so any
  other index falls through and the function returns with the cube as it was.
\<close>

definition rotate_side :: "int \<Rightarrow> Rubix2D \<Rightarrow> error + Rubix2D" where
  "rotate_side index rubix =
     (if index = 1 then rubix_rotate_x 2 1 rubix
      else if index = 2 then rubix_rotate_x 1 1 rubix
      else if index = 3 then rubix_rotate_x 0 1 rubix
      else if index = 4 then rubix_rotate_y 0 1 rubix
      else if index = 5 then rubix_rotate_y 1 1 rubix
      else if index = 6 then rubix_rotate_y 2 1 rubix
      else if index = 7 then rubix_rotate_z 0 1 rubix
      else if index = 8 then rubix_rotate_z 1 1 rubix
      else if index = 9 then rubix_rotate_z 2 1 rubix
      else if index = 10 then rubix_rotate_x 2 3 rubix
      else if index = 11 then rubix_rotate_x 1 3 rubix
      else if index = 12 then rubix_rotate_x 0 3 rubix
      else if index = 13 then rubix_rotate_y 0 3 rubix
      else if index = 14 then rubix_rotate_y 1 3 rubix
      else if index = 15 then rubix_rotate_y 2 3 rubix
      else if index = 16 then rubix_rotate_z 0 3 rubix
      else if index = 17 then rubix_rotate_z 1 3 rubix
      else if index = 18 then rubix_rotate_z 2 3 rubix
      else Inr rubix)"

section \<open>The solver (rubix\_solver.py)\<close>

text \<open>
  A node of the search is a pair of the moves made so far and the cube they lead to; the
  queue is the list of nodes, oldest first. The deep copies are fresh objects with the
  values of the originals, so at the level of values they are the values themselves.

  \<open>expand\<close> is the \<open>for move in range(1, 19)\<close> loop on the node just taken from the queue:
  it returns \<open>Inl new_steps\<close> when a move solves the cube, and otherwise the queue with the
  eighteen new nodes appended.
\<close>

type_synonym node = "int list \<times> Rubix2D"

fun expand :: "int list \<Rightarrow> Rubix2D \<Rightarrow> int list \<Rightarrow> node list \<Rightarrow> error + (int list + node list)" where
  "expand steps rubix [] queue = Inr (Inr queue)"
| "expand steps rubix (move # moves) queue =
     bind_e (rotate_side move rubix) (\<lambda>new_rubix.
       if is_solved new_rubix then Inr (Inl (steps @ [move]))
       else expand steps rubix moves (queue @ [(steps @ [move], new_rubix)]))"

text \<open>
  The \<open>while True\<close> loop. It has no exit but the \<open>return\<close> in its body (or an exception), so
  it is given fuel: one unit for each node taken from the queue, and \<open>None\<close> when the fuel
  is used up before the loop has returned. \<open>popleft\<close> on an empty queue raises
  \<open>IndexError\<close>.
\<close>

fun bfs_loop :: "nat \<Rightarrow> node list \<Rightarrow> (error + int list) option" where
  "bfs_loop 0 queue = None"
| "bfs_loop (Suc fuel) [] = Some (Inl IndexError)"
| "bfs_loop (Suc fuel) ((steps, rubix) # queue) =
     (case expand steps rubix [1..18] queue of
        Inl e \<Rightarrow> Some (Inl e)
      | Inr (Inl new_steps) \<Rightarrow> Some (Inr new_steps)
      | Inr (Inr queue') \<Rightarrow> bfs_loop fuel queue')"

definition breath_first_search ::
  "nat \<Rightarrow> grid \<Rightarrow> grid \<Rightarrow> grid \<Rightarrow> grid \<Rightarrow> grid \<Rightarrow> grid \<Rightarrow> (error + int list) option" where
  "breath_first_search fuel top_in front_in left_in right_in back_in bottom_in =
     (let rubix = Rubix2D_init\<lparr>top' := top_in, front := front_in, left := left_in,
                                right := right_in, back' := back_in, bottom := bottom_in\<rparr>
      in if is_solved rubix then Some (Inr []) else bfs_loop fuel [([], rubix)])"

section \<open>The transform engine (engine.py)\<close>

text \<open>
  Coordinates are Python floats or ints; they are modelled as real numbers, so the
  arithmetic below is exact where the program's is rounded. A point is a list, as in the
  source: unpacking a list that has not three elements raises \<open>ValueError\<close>, and
  subscripting one that is too short raises \<open>IndexError\<close>.
\<close>

definition transform_coord :: "real list \<Rightarrow> real \<Rightarrow> error + real list" where
  "transform_coord vert scale_factor =
     (case vert of
        [x, y, z] \<Rightarrow>
          if z \<le> 0 then Inl TransformationError
          else
            let transformed_x = (x / z * 15) * scale_factor;
                transformed_y = (y / z * 15) * scale_factor
            in Inr [transformed_x, transformed_y]
      | _ \<Rightarrow> Inl ValueError)"

definition radians :: "real \<Rightarrow> real" where
  "radians angle = angle * pi / 180"

text \<open>
  The decorator \<open>rotation\<close>: the wrapper takes the angle in degrees and passes its cosine
  and sine to the decorated function.
\<close>

definition rotation ::
  "(real list \<Rightarrow> real list \<Rightarrow> real \<Rightarrow> real \<Rightarrow> 'a) \<Rightarrow> real list \<Rightarrow> real list \<Rightarrow> real \<Rightarrow> 'a" where
  "rotation func vert center angle =
     (let sin_a = sin (radians angle); cos_a = cos (radians angle)
      in func vert center cos_a sin_a)"

text \<open>The three decorated functions, before decoration.\<close>

definition rotate_x_body ::
  "real list \<Rightarrow> real list \<Rightarrow> real \<Rightarrow> real \<Rightarrow> error + real \<times> real \<times> real" where
  "rotate_x_body vert center cos_a sin_a =
     bind_e (getitem vert 0) (\<lambda>v0. bind_e (getitem center 0) (\<lambda>c0.
     bind_e (getitem vert 2) (\<lambda>v2. bind_e (getitem center 2) (\<lambda>c2.
     bind_e (getitem vert 1) (\<lambda>v1.
       let x = v0 - c0; z = v2 - c2;
           rotated_x = x * cos_a - z * sin_a + c0;
           rotated_y = v1;
           rotated_z = z * cos_a + x * sin_a + c2
       in Inr (rotated_x, rotated_y, rotated_z))))))"

definition rotate_y_body ::
  "real list \<Rightarrow> real list \<Rightarrow> real \<Rightarrow> real \<Rightarrow> error + real \<times> real \<times> real" where
  "rotate_y_body vert center cos_a sin_a =
     bind_e (getitem vert 1) (\<lambda>v1. bind_e (getitem center 1) (\<lambda>c1.
     bind_e (getitem vert 2) (\<lambda>v2. bind_e (getitem center 2) (\<lambda>c2.
     bind_e (getitem vert 0) (\<lambda>v0.
       let y = v1 - c1; z = v2 - c2;
           rotated_x = v0;
           rotated_y = y * cos_a - z * sin_a + c1;
           rotated_z = z * cos_a + y * sin_a + c2
       in Inr (rotated_x, rotated_y, rotated_z))))))"

definition rotate_z_body ::
  "real list \<Rightarrow> real list \<Rightarrow> real \<Rightarrow> real \<Rightarrow> error + real \<times> real \<times> real" where
  "rotate_z_body vert center cos_a sin_a =
     bind_e (getitem vert 0) (\<lambda>v0. bind_e (getitem center 0) (\<lambda>c0.
     bind_e (getitem vert 1) (\<lambda>v1. bind_e (getitem center 1) (\<lambda>c1.
       let x = v0 - c0; y = v1 - c1;
           rotated_x = x * cos_a - y * sin_a + c0;
           rotated_y = y * cos_a + x * sin_a + c1
       in bind_e (getitem vert 2) (\<lambda>v2. Inr (rotated_x, rotated_y, v2))))))"

text \<open>
  \<open>rotate_x\<close>, \<open>rotate_y\<close> and \<open>rotate_z\<close> of engine.py as the program calls them; the
  prefix tells them from the methods of \<open>Rubix2D\<close> that have the same names.
\<close>

definition engine_rotate_x :: "real list \<Rightarrow> real list \<Rightarrow> real \<Rightarrow> error + real \<times> real \<times> real" where
  "engine_rotate_x = rotation rotate_x_body"

definition engine_rotate_y :: "real list \<Rightarrow> real list \<Rightarrow> real \<Rightarrow> error + real \<times> real \<times> real" where
  "engine_rotate_y = rotation rotate_y_body"

definition engine_rotate_z :: "real list \<Rightarrow> real list \<Rightarrow> real \<Rightarrow> error + real \<times> real \<times> real" where
  "engine_rotate_z = rotation rotate_z_body"

section \<open>The solid model (shape.py, cube.py, main.py)\<close>

record Shape =
  colour :: string
  poly :: "real list list"
  orientation_x :: real
  orientation_y :: real

text \<open>\<open>Shape(colour, side)\<close>: both orientations take their default, 45.\<close>

definition Shape_init :: "string \<Rightarrow> real list list \<Rightarrow> Shape" where
  "Shape_init c side = \<lparr>colour = c, poly = side, orientation_x = 45, orientation_y = 45\<rparr>"

definition CUBE_VERTS :: "real list list" where
  "CUBE_VERTS =
     [[-0.5, -0.5, -0.5], [0.5, -0.5, -0.5], [0.5, 0.5, -0.5], [-0.5, 0.5, -0.5],
      [-0.5, -0.5, 0.5], [0.5, -0.5, 0.5], [0.5, 0.5, 0.5], [-0.5, 0.5, 0.5]]"

definition CUBE_POLYS :: "nat list list" where
  "CUBE_POLYS =
     [[0, 1, 2, 3], [4, 5, 6, 7], [0, 1, 5, 4], [1, 2, 6, 5], [2, 3, 7, 6], [3, 0, 4, 7]]"

text \<open>
  The dataclass \<open>Cube\<close>; its fields \<open>x\<close>, \<open>y\<close>, \<open>z\<close> are \<open>cube_x\<close>, \<open>cube_y\<close>, \<open>cube_z\<close> here.
  \<open>Cube_init\<close> is the constructor with \<open>__post_init__\<close>: the six faces of the template
  moved by the offsets, each paired with its colour.
\<close>

record Cube =
  cube_x :: int
  cube_y :: int
  cube_z :: int
  colours :: "string list"
  cube :: "Shape list"

definition Cube_init :: "int \<Rightarrow> int \<Rightarrow> int \<Rightarrow> string list \<Rightarrow> Cube" where
  "Cube_init x y z cs =
     (let faces =
            map (\<lambda>face_indexes.
                   map (\<lambda>index. [CUBE_VERTS ! index ! 0 + real_of_int x,
                                  CUBE_VERTS ! index ! 1 + real_of_int y,
                                  CUBE_VERTS ! index ! 2 + real_of_int z])
                     face_indexes)
              CUBE_POLYS
      in \<lparr>cube_x = x, cube_y = y, cube_z = z, colours = cs,
          cube = map (\<lambda>(c, side). Shape_init c side) (zip cs faces)\<rparr>)"

text \<open>\<open>ALL_CUBES\<close> once \<open>main\<close> has built the scene: the cubes in the order of their creation.\<close>

definition ALL_CUBES :: "Cube list" where
  "ALL_CUBES =
     [Cube_init 0 0 0 [''black'', ''black'', ''black'', ''black'', ''black'', ''black''],
      Cube_init 0 0 1 [''black'', ''orange'', ''black'', ''black'', ''black'', ''black''],
      Cube_init 0 0 (-1) [''red'', ''black'', ''black'', ''black'', ''black'', ''black''],
      Cube_init 1 0 0 [''black'', ''black'', ''black'', ''blue'', ''black'', ''black''],
      Cube_init 1 0 1 [''black'', ''orange'', ''black'', ''blue'', ''black'', ''black''],
      Cube_init 1 0 (-1) [''red'', ''black'', ''black'', ''blue'', ''black'', ''black''],
      Cube_init (-1) 0 0 [''black'', ''black'', ''black'', ''black'', ''black'', ''green''],
      Cube_init (-1) 0 1 [''black'', ''orange'', ''black'', ''black'', ''black'', ''green''],
      Cube_init (-1) 0 (-1) [''red'', ''black'', ''black'', ''black'', ''black'', ''green''],
      Cube_init 0 1 0 [''black'', ''black'', ''black'', ''black'', ''white'', ''black''],
      Cube_init 1 1 0 [''black'', ''black'', ''black'', ''blue'', ''white'', ''black''],
      Cube_init 1 1 (-1) [''red'', ''black'', ''black'', ''blue'', ''white'', ''black''],
      Cube_init 1 1 1 [''black'', ''orange'', ''black'', ''blue'', ''white'', ''black''],
      Cube_init 0 1 (-1) [''red'', ''black'', ''black'', ''black'', ''white'', ''black''],
      Cube_init (-1) 1 (-1) [''red'', ''black'', ''black'', ''black'', ''white'', ''green''],
      Cube_init 0 1 1 [''black'', ''orange'', ''black'', ''black'', ''white'', ''black''],
      Cube_init (-1) 1 1 [''black'', ''orange'', ''black'', ''black'', ''white'', ''green''],
      Cube_init (-1) 1 0 [''black'', ''black'', ''black'', ''black'', ''white'', ''green''],
      Cube_init 1 (-1) 0 [''black'', ''black'', ''yellow'', ''blue'', ''black'', ''black''],
      Cube_init 1 (-1) 1 [''black'', ''orange'', ''yellow'', ''blue'', ''black'', ''black''],
      Cube_init 1 (-1) (-1) [''red'', ''black'', ''yellow'', ''blue'', ''black'', ''black''],
      Cube_init (-1) (-1) 0 [''black'', ''black'', ''yellow'', ''black'', ''black'', ''green''],
      Cube_init (-1) (-1) 1 [''black'', ''orange'', ''yellow'', ''black'', ''black'', ''green''],
      Cube_init (-1) (-1) (-1) [''red'', ''black'', ''yellow'', ''black'', ''black'', ''green''],
      Cube_init 0 (-1) 0 [''black'', ''black'', ''yellow'', ''black'', ''black'', ''black''],
      Cube_init 0 (-1) 1 [''black'', ''orange'', ''yellow'', ''black'', ''black'', ''black''],
      Cube_init 0 (-1) (-1) [''red'', ''black'', ''yellow'', ''black'', ''black'', ''black'']]"

text \<open>
  \<open>filter_cubes\<close>. The generator \<open>vert[index] for face in cube.cube for vert in face.poly\<close>
  is \<open>axis_coords\<close>; \<open>max\<close> and \<open>min\<close> of an empty sequence raise \<open>ValueError\<close>. In the chained
  comparison \<open>max(...) > target > min(...)\<close> the minimum is computed only when the first
  comparison holds, from the sequence the maximum was computed from.
\<close>

fun map_e :: "('a \<Rightarrow> error + 'b) \<Rightarrow> 'a list \<Rightarrow> error + 'b list" where
  "map_e f [] = Inr []"
| "map_e f (x # xs) = bind_e (f x) (\<lambda>y. bind_e (map_e f xs) (\<lambda>ys. Inr (y # ys)))"

definition axis_coords :: "Cube \<Rightarrow> int \<Rightarrow> error + real list" where
  "axis_coords c index = map_e (\<lambda>vert. getitem vert index) (concat (map poly (cube c)))"

definition py_max :: "real list \<Rightarrow> error + real" where
  "py_max xs = (case xs of [] \<Rightarrow> Inl ValueError | v # vs \<Rightarrow> Inr (fold max vs v))"

definition py_min :: "real list \<Rightarrow> error + real" where
  "py_min xs = (case xs of [] \<Rightarrow> Inl ValueError | v # vs \<Rightarrow> Inr (fold min vs v))"

definition filter_cubes :: "Cube \<Rightarrow> int \<Rightarrow> real \<Rightarrow> error + bool" where
  "filter_cubes c index target =
     bind_e (axis_coords c index) (\<lambda>coords.
     bind_e (py_max coords) (\<lambda>hi.
       if hi > target then bind_e (py_min coords) (\<lambda>lo. Inr (target > lo))
       else Inr False))"

section \<open>The solver on a heap of list objects\<close>

text \<open>
  Whether the solver changes the grids it is given depends on which list objects it
  writes to, so here the lists are objects in a heap. A grid is a list object that holds
  the addresses of its rows, a row is a list object that holds colours (strings are
  immutable and are kept as values). \<open>next_addr\<close> is the address the next new object
  gets.
\<close>

type_synonym addr = nat

record heap =
  grid_objs :: "addr \<rightharpoonup> addr list"
  row_objs :: "addr \<rightharpoonup> colour list"
  next_addr :: addr

text \<open>
  A computation on the heap returns a value or raises, and leaves a heap in both cases.
\<close>

type_synonym 'a prog = "heap \<Rightarrow> (error + 'a) \<times> heap"

definition return_h :: "'a \<Rightarrow> 'a prog" where
  "return_h v h = (Inr v, h)"

definition lift_e :: "error + 'a \<Rightarrow> 'a prog" where
  "lift_e r h = (r, h)"

definition bind_h :: "'a prog \<Rightarrow> ('a \<Rightarrow> 'b prog) \<Rightarrow> 'b prog" where
  "bind_h m f h = (case m h of (Inl e, h') \<Rightarrow> (Inl e, h') | (Inr v, h') \<Rightarrow> f v h')"

fun repeat_h :: "nat \<Rightarrow> unit prog \<Rightarrow> unit prog" where
  "repeat_h 0 body = return_h ()"
| "repeat_h (Suc n) body = bind_h body (\<lambda>_. repeat_h n body)"

fun for_h :: "'a list \<Rightarrow> ('a \<Rightarrow> unit prog) \<Rightarrow> unit prog" where
  "for_h [] body = return_h ()"
| "for_h (x # xs) body = bind_h (body x) (\<lambda>_. for_h xs body)"

fun map_h :: "('a \<Rightarrow> 'b prog) \<Rightarrow> 'a list \<Rightarrow> 'b list prog" where
  "map_h f [] = return_h []"
| "map_h f (x # xs) = bind_h (f x) (\<lambda>y. bind_h (map_h f xs) (\<lambda>ys. return_h (y # ys)))"

subsection \<open>Creating, reading and writing list objects\<close>

definition new_row :: "colour list \<Rightarrow> addr prog" where
  "new_row cs h =
     (Inr (next_addr h),
      h\<lparr>row_objs := (row_objs h)(next_addr h \<mapsto> cs), next_addr := next_addr h + 1\<rparr>)"

definition new_grid :: "addr list \<Rightarrow> addr prog" where
  "new_grid rs h =
     (Inr (next_addr h),
      h\<lparr>grid_objs := (grid_objs h)(next_addr h \<mapsto> rs), next_addr := next_addr h + 1\<rparr>)"

definition read_row :: "addr \<Rightarrow> colour list prog" where
  "read_row r h = (case row_objs h r of None \<Rightarrow> (Inl NoSuchObject, h) | Some cs \<Rightarrow> (Inr cs, h))"

definition read_grid :: "addr \<Rightarrow> addr list prog" where
  "read_grid g h = (case grid_objs h g of None \<Rightarrow> (Inl NoSuchObject, h) | Some rs \<Rightarrow> (Inr rs, h))"

definition write_row :: "addr \<Rightarrow> colour list \<Rightarrow> unit prog" where
  "write_row r cs h = (Inr (), h\<lparr>row_objs := (row_objs h)(r \<mapsto> cs)\<rparr>)"

definition write_grid :: "addr \<Rightarrow> addr list \<Rightarrow> unit prog" where
  "write_grid g rs h = (Inr (), h\<lparr>grid_objs := (grid_objs h)(g \<mapsto> rs)\<rparr>)"

text \<open>The value of the grid at an address: the contents of its rows.\<close>

definition grid_value :: "addr \<Rightarrow> grid prog" where
  "grid_value g = bind_h (read_grid g) (\<lambda>rs. map_h read_row rs)"

text \<open>
  A new grid with the given value, built as a list comprehension builds it: the outer
  list first, then one new list for each row.
\<close>

definition new_grid_value :: "grid \<Rightarrow> addr prog" where
  "new_grid_value v =
     bind_h (new_grid []) (\<lambda>g.
     bind_h (map_h new_row v) (\<lambda>rs.
     bind_h (write_grid g rs) (\<lambda>_. return_h g)))"

text \<open>
  \<open>grid[y]\<close>, \<open>grid[y] = row\<close>, \<open>grid[i][j]\<close> and \<open>grid[i][j] = v\<close> on the grid object at
  an address.
\<close>

definition h_getrow :: "addr \<Rightarrow> int \<Rightarrow> addr prog" where
  "h_getrow g y = bind_h (read_grid g) (\<lambda>rs. lift_e (getitem rs y))"

definition h_setrow :: "addr \<Rightarrow> int \<Rightarrow> addr \<Rightarrow> unit prog" where
  "h_setrow g y r =
     bind_h (read_grid g) (\<lambda>rs. bind_h (lift_e (setitem rs y r)) (\<lambda>rs'. write_grid g rs'))"

definition h_getcell :: "addr \<Rightarrow> int \<Rightarrow> int \<Rightarrow> colour prog" where
  "h_getcell g i j =
     bind_h (read_grid g) (\<lambda>rs.
     bind_h (lift_e (getitem rs i)) (\<lambda>r.
     bind_h (read_row r) (\<lambda>cs. lift_e (getitem cs j))))"

definition h_setcell :: "addr \<Rightarrow> int \<Rightarrow> int \<Rightarrow> colour \<Rightarrow> unit prog" where
  "h_setcell g i j v =
     bind_h (read_grid g) (\<lambda>rs.
     bind_h (lift_e (getitem rs i)) (\<lambda>r.
     bind_h (read_row r) (\<lambda>cs.
     bind_h (lift_e (setitem cs j v)) (\<lambda>cs'. write_row r cs'))))"

subsection \<open>copy.deepcopy\<close>

text \<open>
  \<open>copy.deepcopy\<close> keeps a memo of the objects it has copied, so that an object reached
  twice is copied once. A list is entered in the memo when its copy is created, before
  its elements are copied.
\<close>

record memo =
  grid_memo :: "addr \<rightharpoonup> addr"
  row_memo :: "addr \<rightharpoonup> addr"

definition empty_memo :: memo where
  "empty_memo = \<lparr>grid_memo = Map.empty, row_memo = Map.empty\<rparr>"

definition deepcopy_row :: "memo \<Rightarrow> addr \<Rightarrow> (addr \<times> memo) prog" where
  "deepcopy_row m r =
     (case row_memo m r of
        Some r' \<Rightarrow> return_h (r', m)
      | None \<Rightarrow>
          bind_h (read_row r) (\<lambda>cs.
          bind_h (new_row cs) (\<lambda>r'. return_h (r', m\<lparr>row_memo := (row_memo m)(r \<mapsto> r')\<rparr>))))"

fun deepcopy_rows :: "memo \<Rightarrow> addr list \<Rightarrow> (addr list \<times> memo) prog" where
  "deepcopy_rows m [] = return_h ([], m)"
| "deepcopy_rows m (r # rs) =
     bind_h (deepcopy_row m r) (\<lambda>(r', m1).
     bind_h (deepcopy_rows m1 rs) (\<lambda>(rs', m2). return_h (r' # rs', m2)))"

definition deepcopy_grid :: "memo \<Rightarrow> addr \<Rightarrow> (addr \<times> memo) prog" where
  "deepcopy_grid m g =
     (case grid_memo m g of
        Some g' \<Rightarrow> return_h (g', m)
      | None \<Rightarrow>
          bind_h (read_grid g) (\<lambda>rs.
          bind_h (new_grid []) (\<lambda>g'.
          bind_h (deepcopy_rows (m\<lparr>grid_memo := (grid_memo m)(g \<mapsto> g')\<rparr>) rs) (\<lambda>(rs', m1).
          bind_h (write_grid g' rs') (\<lambda>_. return_h (g', m1))))))"

text \<open>\<open>copy.deepcopy(grid)\<close>, a call of its own with an empty memo.\<close>

definition deepcopy :: "addr \<Rightarrow> addr prog" where
  "deepcopy g = bind_h (deepcopy_grid empty_memo g) (\<lambda>(g', _). return_h g')"

subsection \<open>Rubix2D on the heap\<close>

text \<open>
  A \<open>Rubix2D\<close> instance: the addresses its six attributes are bound to. The solver never
  shares an instance (each node of the queue has its own), so the instance itself is a
  value, and an assignment to an attribute gives a new value.
\<close>

record Rubix2D_ref =
  top_ref :: addr
  bottom_ref :: addr
  left_ref :: addr
  right_ref :: addr
  front_ref :: addr
  back_ref :: addr

definition h_Rubix2D_init :: "Rubix2D_ref prog" where
  "h_Rubix2D_init =
     bind_h (new_grid_value (uniform ''yellow'')) (\<lambda>t.
     bind_h (new_grid_value (uniform ''white'')) (\<lambda>bo.
     bind_h (new_grid_value (uniform ''green'')) (\<lambda>l.
     bind_h (new_grid_value (uniform ''blue'')) (\<lambda>r.
     bind_h (new_grid_value (uniform ''red'')) (\<lambda>f.
     bind_h (new_grid_value (uniform ''orange'')) (\<lambda>b.
     return_h \<lparr>top_ref = t, bottom_ref = bo, left_ref = l, right_ref = r,
               front_ref = f, back_ref = b\<rparr>))))))"

text \<open>
  \<open>copy.deepcopy(rubix)\<close>: the attributes are copied in the order of their creation,
  with one memo for all six.
\<close>

definition deepcopy_rubix :: "Rubix2D_ref \<Rightarrow> Rubix2D_ref prog" where
  "deepcopy_rubix rubix =
     bind_h (deepcopy_grid empty_memo (top_ref rubix)) (\<lambda>(t, m1).
     bind_h (deepcopy_grid m1 (bottom_ref rubix)) (\<lambda>(bo, m2).
     bind_h (deepcopy_grid m2 (left_ref rubix)) (\<lambda>(l, m3).
     bind_h (deepcopy_grid m3 (right_ref rubix)) (\<lambda>(r, m4).
     bind_h (deepcopy_grid m4 (front_ref rubix)) (\<lambda>(f, m5).
     bind_h (deepcopy_grid m5 (back_ref rubix)) (\<lambda>(b, m6).
     return_h \<lparr>top_ref = t, bottom_ref = bo, left_ref = l, right_ref = r,
               front_ref = f, back_ref = b\<rparr>))))))"

text \<open>
  \<open>rotate_arr\<close>: it reads the grid it is given and returns a new one (the closing list
  comprehension builds new lists even when \<open>iters\<close> is 0). The tuples and lists of the
  passes in between are not kept.
\<close>

definition h_rotate_arr :: "addr \<Rightarrow> int \<Rightarrow> addr prog" where
  "h_rotate_arr arr iters = bind_h (grid_value arr) (\<lambda>v. new_grid_value (rotate_arr v iters))"

definition h_rotate_x_once :: "int \<Rightarrow> Rubix2D_ref \<Rightarrow> unit prog" where
  "h_rotate_x_once y rubix =
     bind_h (h_getrow (left_ref rubix) y) (\<lambda>l.
     bind_h (h_getrow (front_ref rubix) y) (\<lambda>f.
     bind_h (h_getrow (right_ref rubix) y) (\<lambda>r.
     bind_h (h_getrow (back_ref rubix) y) (\<lambda>b.
     bind_h (h_setrow (front_ref rubix) y l) (\<lambda>_.
     bind_h (h_setrow (right_ref rubix) y f) (\<lambda>_.
     bind_h (h_setrow (back_ref rubix) y r) (\<lambda>_.
     h_setrow (left_ref rubix) y b)))))))"

definition h_rubix_rotate_x :: "int \<Rightarrow> int \<Rightarrow> Rubix2D_ref \<Rightarrow> Rubix2D_ref prog" where
  "h_rubix_rotate_x y iters rubix =
     bind_h (repeat_h (nat iters) (h_rotate_x_once y rubix)) (\<lambda>_.
     bind_h (if y = 0 then h_rotate_arr (top_ref rubix) (3 * iters)
             else return_h (top_ref rubix)) (\<lambda>t.
     bind_h (if y = 2 then h_rotate_arr (bottom_ref rubix) (1 * iters)
             else return_h (bottom_ref rubix)) (\<lambda>bo.
     return_h (rubix\<lparr>top_ref := t, bottom_ref := bo\<rparr>))))"

definition h_rotate_y_once :: "int \<Rightarrow> Rubix2D_ref \<Rightarrow> unit prog" where
  "h_rotate_y_once x rubix =
     bind_h (deepcopy (front_ref rubix)) (\<lambda>front0.
     bind_h (deepcopy (top_ref rubix)) (\<lambda>top0.
     bind_h (deepcopy (back_ref rubix)) (\<lambda>back0.
     bind_h (deepcopy (bottom_ref rubix)) (\<lambda>bottom0.
       case INVERSE x of
         None \<Rightarrow> lift_e (Inl KeyError)
       | Some inv_x \<Rightarrow>
           bind_h
             (for_h [0, 1, 2]
                (\<lambda>index.
                   bind_h (h_getcell top0 index x) (\<lambda>v.
                   bind_h (h_setcell (front_ref rubix) index x v) (\<lambda>_.
                   bind_h (h_getcell front0 index x) (\<lambda>w.
                   h_setcell (bottom_ref rubix) index x w)))))
             (\<lambda>_.
              for_h (zip [0, 1, 2] [2, 1, 0])
                (\<lambda>(index_1, index_2).
                   bind_h (h_getcell back0 index_2 inv_x) (\<lambda>v.
                   bind_h (h_setcell (top_ref rubix) index_1 x v) (\<lambda>_.
                   bind_h (h_getcell bottom0 index_2 x) (\<lambda>w.
                   h_setcell (back_ref rubix) index_1 inv_x w)))))))))"

definition h_rubix_rotate_y :: "int \<Rightarrow> int \<Rightarrow> Rubix2D_ref \<Rightarrow> Rubix2D_ref prog" where
  "h_rubix_rotate_y x iters rubix =
     bind_h (repeat_h (nat iters) (h_rotate_y_once x rubix)) (\<lambda>_.
     bind_h (if x = 0 then h_rotate_arr (left_ref rubix) (1 * iters)
             else return_h (left_ref rubix)) (\<lambda>l.
     bind_h (if x = 2 then h_rotate_arr (right_ref rubix) (3 * iters)
             else return_h (right_ref rubix)) (\<lambda>r.
     return_h (rubix\<lparr>left_ref := l, right_ref := r\<rparr>))))"

definition h_rotate_z_once :: "int \<Rightarrow> Rubix2D_ref \<Rightarrow> unit prog" where
  "h_rotate_z_once z rubix =
     bind_h (deepcopy (left_ref rubix)) (\<lambda>left0.
     bind_h (deepcopy (top_ref rubix)) (\<lambda>top0.
     bind_h (deepcopy (right_ref rubix)) (\<lambda>right0.
     bind_h (deepcopy (bottom_ref rubix)) (\<lambda>bottom0.
       case INVERSE z of
         None \<Rightarrow> lift_e (Inl KeyError)
       | Some inv_z \<Rightarrow>
           bind_h
             (for_h (zip [0, 1, 2] [2, 1, 0])
                (\<lambda>(index_1, index_2).
                   bind_h (h_getcell left0 index_2 z) (\<lambda>v.
                   bind_h (h_setcell (top_ref rubix) z index_1 v) (\<lambda>_.
                   bind_h (h_getcell right0 index_2 inv_z) (\<lambda>w.
                   h_setcell (bottom_ref rubix) inv_z index_1 w)))))
             (\<lambda>_.
              for_h [0, 1, 2]
                (\<lambda>index.
                   bind_h (h_getcell top0 z index) (\<lambda>v.
                   bind_h (h_setcell (right_ref rubix) index inv_z v) (\<lambda>_.
                   bind_h (h_getcell bottom0 inv_z index) (\<lambda>w.
                   h_setcell (left_ref rubix) index z w)))))))))"

definition h_rubix_rotate_z :: "int \<Rightarrow> int \<Rightarrow> Rubix2D_ref \<Rightarrow> Rubix2D_ref prog" where
  "h_rubix_rotate_z z iters rubix =
     bind_h (repeat_h (nat iters) (h_rotate_z_once z rubix)) (\<lambda>_.
     bind_h (if z = 0 then h_rotate_arr (back_ref rubix) (3 * iters)
             else return_h (back_ref rubix)) (\<lambda>b.
     bind_h (if z = 2 then h_rotate_arr (front_ref rubix) (1 * iters)
             else return_h (front_ref rubix)) (\<lambda>f.
     return_h (rubix\<lparr>back_ref := b, front_ref := f\<rparr>))))"

definition h_rubix_value :: "Rubix2D_ref \<Rightarrow> Rubix2D prog" where
  "h_rubix_value rubix =
     bind_h (grid_value (top_ref rubix)) (\<lambda>t.
     bind_h (grid_value (bottom_ref rubix)) (\<lambda>bo.
     bind_h (grid_value (left_ref rubix)) (\<lambda>l.
     bind_h (grid_value (right_ref rubix)) (\<lambda>r.
     bind_h (grid_value (front_ref rubix)) (\<lambda>f.
     bind_h (grid_value (back_ref rubix)) (\<lambda>b.
     return_h \<lparr>top' = t, bottom = bo, left = l, right = r, front = f, back' = b\<rparr>))))))"

definition h_is_solved :: "Rubix2D_ref \<Rightarrow> bool prog" where
  "h_is_solved rubix = bind_h (h_rubix_value rubix) (\<lambda>s. return_h (is_solved s))"

definition h_rotate_side :: "int \<Rightarrow> Rubix2D_ref \<Rightarrow> Rubix2D_ref prog" where
  "h_rotate_side index rubix =
     (if index = 1 then h_rubix_rotate_x 2 1 rubix
      else if index = 2 then h_rubix_rotate_x 1 1 rubix
      else if index = 3 then h_rubix_rotate_x 0 1 rubix
      else if index = 4 then h_rubix_rotate_y 0 1 rubix
      else if index = 5 then h_rubix_rotate_y 1 1 rubix
      else if index = 6 then h_rubix_rotate_y 2 1 rubix
      else if index = 7 then h_rubix_rotate_z 0 1 rubix
      else if index = 8 then h_rubix_rotate_z 1 1 rubix
      else if index = 9 then h_rubix_rotate_z 2 1 rubix
      else if index = 10 then h_rubix_rotate_x 2 3 rubix
      else if index = 11 then h_rubix_rotate_x 1 3 rubix
      else if index = 12 then h_rubix_rotate_x 0 3 rubix
      else if index = 13 then h_rubix_rotate_y 0 3 rubix
      else if index = 14 then h_rubix_rotate_y 1 3 rubix
      else if index = 15 then h_rubix_rotate_y 2 3 rubix
      else if index = 16 then h_rubix_rotate_z 0 3 rubix
      else if index = 17 then h_rubix_rotate_z 1 3 rubix
      else if index = 18 then h_rubix_rotate_z 2 3 rubix
      else return_h rubix)"

subsection \<open>breath\_first\_search on the heap\<close>

type_synonym h_node = "int list \<times> Rubix2D_ref"

fun h_expand ::
  "int list \<Rightarrow> Rubix2D_ref \<Rightarrow> int list \<Rightarrow> h_node list \<Rightarrow> (int list + h_node list) prog" where
  "h_expand steps rubix [] queue = return_h (Inr queue)"
| "h_expand steps rubix (move # moves) queue =
     bind_h (deepcopy_rubix rubix) (\<lambda>copied.
     bind_h (h_rotate_side move copied) (\<lambda>new_rubix.
     bind_h (h_is_solved new_rubix) (\<lambda>solved.
       if solved then return_h (Inl (steps @ [move]))
       else h_expand steps rubix moves (queue @ [(steps @ [move], new_rubix)]))))"

fun h_bfs_loop :: "nat \<Rightarrow> h_node list \<Rightarrow> heap \<Rightarrow> (error + int list) option \<times> heap" where
  "h_bfs_loop 0 queue h = (None, h)"
| "h_bfs_loop (Suc fuel) [] h = (Some (Inl IndexError), h)"
| "h_bfs_loop (Suc fuel) ((steps, rubix) # queue) h =
     (case h_expand steps rubix [1..18] queue h of
        (Inl e, h') \<Rightarrow> (Some (Inl e), h')
      | (Inr (Inl new_steps), h') \<Rightarrow> (Some (Inr new_steps), h')
      | (Inr (Inr queue'), h') \<Rightarrow> h_bfs_loop fuel queue' h')"

text \<open>
  \<open>breath_first_search\<close> with the addresses of the six grids it is called with. The new
  instance is built by the constructor and then its attributes are bound to the copies,
  in the order of the source.
\<close>

definition h_setup ::
  "addr \<Rightarrow> addr \<Rightarrow> addr \<Rightarrow> addr \<Rightarrow> addr \<Rightarrow> addr \<Rightarrow> (Rubix2D_ref \<times> bool) prog" where
  "h_setup top_in front_in left_in right_in back_in bottom_in =
     bind_h h_Rubix2D_init (\<lambda>rubix.
     bind_h (deepcopy top_in) (\<lambda>t.
     bind_h (deepcopy front_in) (\<lambda>f.
     bind_h (deepcopy left_in) (\<lambda>l.
     bind_h (deepcopy right_in) (\<lambda>r.
     bind_h (deepcopy back_in) (\<lambda>b.
     bind_h (deepcopy bottom_in) (\<lambda>bo.
       let rubix' = rubix\<lparr>top_ref := t, front_ref := f, left_ref := l, right_ref := r,
                          back_ref := b, bottom_ref := bo\<rparr>
       in bind_h (h_is_solved rubix') (\<lambda>solved. return_h (rubix', solved)))))))))"

definition h_breath_first_search ::
  "nat \<Rightarrow> addr \<Rightarrow> addr \<Rightarrow> addr \<Rightarrow> addr \<Rightarrow> addr \<Rightarrow> addr \<Rightarrow> heap \<Rightarrow>
     (error + int list) option \<times> heap" where
  "h_breath_first_search fuel top_in front_in left_in right_in back_in bottom_in h =
     (case h_setup top_in front_in left_in right_in back_in bottom_in h of
        (Inl e, h') \<Rightarrow> (Some (Inl e), h')
      | (Inr (rubix, solved), h') \<Rightarrow>
          if solved then (Some (Inr []), h') else h_bfs_loop fuel [([], rubix)] h')"

text \<open>
  The heap before the solver is called: \<open>store_state\<close> builds, in the empty heap, the six
  grids of a cube with the given value, as the live \<open>Rubix2D\<close> of the program holds them.
\<close>

definition empty_heap :: heap where
  "empty_heap = \<lparr>grid_objs = Map.empty, row_objs = Map.empty, next_addr = 0\<rparr>"

definition store_state :: "Rubix2D \<Rightarrow> Rubix2D_ref prog" where
  "store_state s =
     bind_h (new_grid_value (top' s)) (\<lambda>t.
     bind_h (new_grid_value (bottom s)) (\<lambda>bo.
     bind_h (new_grid_value (left s)) (\<lambda>l.
     bind_h (new_grid_value (right s)) (\<lambda>r.
     bind_h (new_grid_value (front s)) (\<lambda>f.
     bind_h (new_grid_value (back' s)) (\<lambda>b.
     return_h \<lparr>top_ref = t, bottom_ref = bo, left_ref = l, right_ref = r,
               front_ref = f, back_ref = b\<rparr>))))))"

text \<open>
  The cube after move 1 from the solved cube, and the heap that holds it; the six grids
  are at the addresses 0, 4, 8, 12, 16 and 20, each followed by its three rows.
\<close>

definition scrambled :: Rubix2D where
  "scrambled =
     \<lparr>top' = [[''yellow'', ''yellow'', ''yellow''], [''yellow'', ''yellow'', ''yellow''],
              [''yellow'', ''yellow'', ''yellow'']],
      bottom = [[''white'', ''white'', ''white''], [''white'', ''white'', ''white''],
                [''white'', ''white'', ''white'']],
      left = [[''green'', ''green'', ''green''], [''green'', ''green'', ''green''],
              [''orange'', ''orange'', ''orange'']],
      right = [[''blue'', ''blue'', ''blue''], [''blue'', ''blue'', ''blue''],
               [''red'', ''red'', ''red'']],
      front = [[''red'', ''red'', ''red''], [''red'', ''red'', ''red''],
               [''green'', ''green'', ''green'']],
      back' = [[''orange'', ''orange'', ''orange''], [''orange'', ''orange'', ''orange''],
               [''blue'', ''blue'', ''blue'']]\<rparr>"

definition scrambled_heap :: heap where
  "scrambled_heap = snd (store_state scrambled empty_heap)"

definition scrambled_refs :: Rubix2D_ref where
  "scrambled_refs =
     \<lparr>top_ref = 0, bottom_ref = 4, left_ref = 8, right_ref = 12, front_ref = 16,
      back_ref = 20\<rparr>"

text \<open>What \<open>read_row\<close> returns, as a function of the heap.\<close>

definition row_at :: "heap \<Rightarrow> addr \<Rightarrow> error + colour list" where
  "row_at h r = (case row_objs h r of None \<Rightarrow> Inl NoSuchObject | Some cs \<Rightarrow> Inr cs)"

text \<open>
  A heap in which nothing lives at or beyond \<open>next_addr\<close> and no grid holds an address
  at or beyond it, as in every heap that grows by \<open>new_row\<close> and \<open>new_grid\<close> from the
  empty one.
\<close>

definition heap_ok :: "heap \<Rightarrow> bool" where
  "heap_ok h =
     ((\<forall>a. next_addr h \<le> a \<longrightarrow> grid_objs h a = None \<and> row_objs h a = None) \<and>
      (\<forall>g rs. grid_objs h g = Some rs \<longrightarrow> (\<forall>r\<in>set rs. r < next_addr h)))"

text \<open>
  What the proof that the solver leaves old objects alone carries along, for a mark \<open>n\<close>
  (the value of \<open>next_addr\<close> when the solver was called): the grids at or beyond the mark
  hold only rows at or beyond it, and everything below it is as in the heap \<open>h0\<close>.
\<close>

definition above :: "addr \<Rightarrow> heap \<Rightarrow> bool" where
  "above n h =
     (n \<le> next_addr h \<and>
      (\<forall>g rs. n \<le> g \<longrightarrow> grid_objs h g = Some rs \<longrightarrow> (\<forall>r\<in>set rs. n \<le> r)))"

definition same_below :: "addr \<Rightarrow> heap \<Rightarrow> heap \<Rightarrow> bool" where
  "same_below n h0 h =
     (\<forall>a. a < n \<longrightarrow> grid_objs h a = grid_objs h0 a \<and> row_objs h a = row_objs h0 a)"

definition keeps :: "addr \<Rightarrow> 'a prog \<Rightarrow> ('a \<Rightarrow> bool) \<Rightarrow> bool" where
  "keeps n m Q =
     (\<forall>h r h'. above n h \<longrightarrow> m h = (r, h') \<longrightarrow>
        above n h' \<and> same_below n h h' \<and> (\<forall>v. r = Inr v \<longrightarrow> Q v))"

definition rubix_above :: "addr \<Rightarrow> Rubix2D_ref \<Rightarrow> bool" where
  "rubix_above n rubix =
     (n \<le> top_ref rubix \<and> n \<le> bottom_ref rubix \<and> n \<le> left_ref rubix \<and>
      n \<le> right_ref rubix \<and> n \<le> front_ref rubix \<and> n \<le> back_ref rubix)"

definition queue_above :: "addr \<Rightarrow> h_node list \<Rightarrow> bool" where
  "queue_above n queue = (\<forall>node\<in>set queue. rubix_above n (snd node))"

definition memo_above :: "addr \<Rightarrow> memo \<Rightarrow> bool" where
  "memo_above n m =
     ((\<forall>a b. grid_memo m a = Some b \<longrightarrow> n \<le> b) \<and> (\<forall>a b. row_memo m a = Some b \<longrightarrow> n \<le> b))"

section \<open>Well-formed states\<close>

text \<open>A grid of three rows of three cells, and a state of six such grids.\<close>

definition grid3 :: "grid \<Rightarrow> bool" where
  "grid3 g = (length g = 3 \<and> list_all (\<lambda>row. length row = 3) g)"

definition wf_state :: "Rubix2D \<Rightarrow> bool" where
  "wf_state s =
     (grid3 (top' s) \<and> grid3 (bottom s) \<and> grid3 (left s) \<and> grid3 (right s) \<and>
      grid3 (front s) \<and> grid3 (back' s))"

text \<open>The cells of the six grids, and how often a colour occurs among them.\<close>

definition all_cells :: "Rubix2D \<Rightarrow> colour list" where
  "all_cells s =
     concat (top' s) @ concat (bottom s) @ concat (left s) @ concat (right s) @
     concat (front s) @ concat (back' s)"

definition colour_count :: "colour \<Rightarrow> Rubix2D \<Rightarrow> nat" where
  "colour_count c s = count_list (all_cells s) c"

section \<open>Evaluating the turns on a state of six 3 by 3 grids\<close>

lemma list3_cases:
  assumes "length xs = 3"
  obtains a b c where "xs = [a, b, c]"
  using assms by (cases xs; cases "tl xs"; cases "tl (tl xs)"; cases "tl (tl (tl xs))") auto

lemma grid3_cases:
  assumes "grid3 g"
  obtains a b c d e f h i j where "g = [[a, b, c], [d, e, f], [h, i, j]]"
proof -
  from assms obtain r1 r2 r3 where g: "g = [r1, r2, r3]"
    by (auto simp: grid3_def elim: list3_cases)
  with assms have "length r1 = 3" "length r2 = 3" "length r3 = 3"
    by (auto simp: grid3_def)
  then obtain a b c d e f h i j where "r1 = [a, b, c]" "r2 = [d, e, f]" "r3 = [h, i, j]"
    by (metis list3_cases)
  with g show ?thesis using that by blast
qed

lemma grid3_literal [simp]: "grid3 [[a, b, c], [d, e, f], [h, i, j]]"
  by (simp add: grid3_def)

lemma wf_state_cases:
  assumes "wf_state s"
  obtains t1 t2 t3 t4 t5 t6 t7 t8 t9 b1 b2 b3 b4 b5 b6 b7 b8 b9
    l1 l2 l3 l4 l5 l6 l7 l8 l9 r1 r2 r3 r4 r5 r6 r7 r8 r9
    f1 f2 f3 f4 f5 f6 f7 f8 f9 k1 k2 k3 k4 k5 k6 k7 k8 k9
  where "s = \<lparr>top' = [[t1, t2, t3], [t4, t5, t6], [t7, t8, t9]],
               bottom = [[b1, b2, b3], [b4, b5, b6], [b7, b8, b9]],
               left = [[l1, l2, l3], [l4, l5, l6], [l7, l8, l9]],
               right = [[r1, r2, r3], [r4, r5, r6], [r7, r8, r9]],
               front = [[f1, f2, f3], [f4, f5, f6], [f7, f8, f9]],
               back' = [[k1, k2, k3], [k4, k5, k6], [k7, k8, k9]]\<rparr>"
proof -
  obtain t b l r f k where s: "s = \<lparr>top' = t, bottom = b, left = l, right = r, front = f, back' = k\<rparr>"
    by (cases s) auto
  with assms have g: "grid3 t" "grid3 b" "grid3 l" "grid3 r" "grid3 f" "grid3 k"
    by (simp_all add: wf_state_def)
  from g(1) obtain t1 t2 t3 t4 t5 t6 t7 t8 t9
    where t: "t = [[t1, t2, t3], [t4, t5, t6], [t7, t8, t9]]" by (rule grid3_cases)
  from g(2) obtain b1 b2 b3 b4 b5 b6 b7 b8 b9
    where b: "b = [[b1, b2, b3], [b4, b5, b6], [b7, b8, b9]]" by (rule grid3_cases)
  from g(3) obtain l1 l2 l3 l4 l5 l6 l7 l8 l9
    where l: "l = [[l1, l2, l3], [l4, l5, l6], [l7, l8, l9]]" by (rule grid3_cases)
  from g(4) obtain r1 r2 r3 r4 r5 r6 r7 r8 r9
    where r: "r = [[r1, r2, r3], [r4, r5, r6], [r7, r8, r9]]" by (rule grid3_cases)
  from g(5) obtain f1 f2 f3 f4 f5 f6 f7 f8 f9
    where f: "f = [[f1, f2, f3], [f4, f5, f6], [f7, f8, f9]]" by (rule grid3_cases)
  from g(6) obtain k1 k2 k3 k4 k5 k6 k7 k8 k9
    where k: "k = [[k1, k2, k3], [k4, k5, k6], [k7, k8, k9]]" by (rule grid3_cases)
  show ?thesis
    by (rule that) (simp add: s t b l r f k)
qed



lemmas once_defs = bind_e_def getitem_def setitem_def py_index_def getcell_def setcell_def
  rotate_x_once_def rotate_y_once_def rotate_z_once_def INVERSE_def

text \<open>The effect of one pass of each loop, for each of the three layers of its axis.\<close>

lemma rotate_x_once_0:
  "rotate_x_once 0
     \<lparr>top' = [[t1, t2, t3], [t4, t5, t6], [t7, t8, t9]],
      bottom = [[b1, b2, b3], [b4, b5, b6], [b7, b8, b9]],
      left = [[l1, l2, l3], [l4, l5, l6], [l7, l8, l9]],
      right = [[r1, r2, r3], [r4, r5, r6], [r7, r8, r9]],
      front = [[f1, f2, f3], [f4, f5, f6], [f7, f8, f9]],
      back' = [[k1, k2, k3], [k4, k5, k6], [k7, k8, k9]]\<rparr> =
   Inr \<lparr>top' = [[t1, t2, t3], [t4, t5, t6], [t7, t8, t9]],
        bottom = [[b1, b2, b3], [b4, b5, b6], [b7, b8, b9]],
        left = [[k1, k2, k3], [l4, l5, l6], [l7, l8, l9]],
        right = [[f1, f2, f3], [r4, r5, r6], [r7, r8, r9]],
        front = [[l1, l2, l3], [f4, f5, f6], [f7, f8, f9]],
        back' = [[r1, r2, r3], [k4, k5, k6], [k7, k8, k9]]\<rparr>"
  by (simp add: once_defs)

lemma rotate_x_once_1:
  "rotate_x_once 1
     \<lparr>top' = [[t1, t2, t3], [t4, t5, t6], [t7, t8, t9]],
      bottom = [[b1, b2, b3], [b4, b5, b6], [b7, b8, b9]],
      left = [[l1, l2, l3], [l4, l5, l6], [l7, l8, l9]],
      right = [[r1, r2, r3], [r4, r5, r6], [r7, r8, r9]],
      front = [[f1, f2, f3], [f4, f5, f6], [f7, f8, f9]],
      back' = [[k1, k2, k3], [k4, k5, k6], [k7, k8, k9]]\<rparr> =
   Inr \<lparr>top' = [[t1, t2, t3], [t4, t5, t6], [t7, t8, t9]],
        bottom = [[b1, b2, b3], [b4, b5, b6], [b7, b8, b9]],
        left = [[l1, l2, l3], [k4, k5, k6], [l7, l8, l9]],
        right = [[r1, r2, r3], [f4, f5, f6], [r7, r8, r9]],
        front = [[f1, f2, f3], [l4, l5, l6], [f7, f8, f9]],
        back' = [[k1, k2, k3], [r4, r5, r6], [k7, k8, k9]]\<rparr>"
  by (simp add: once_defs)

lemma rotate_x_once_2:
  "rotate_x_once 2
     \<lparr>top' = [[t1, t2, t3], [t4, t5, t6], [t7, t8, t9]],
      bottom = [[b1, b2, b3], [b4, b5, b6], [b7, b8, b9]],
      left = [[l1, l2, l3], [l4, l5, l6], [l7, l8, l9]],
      right = [[r1, r2, r3], [r4, r5, r6], [r7, r8, r9]],
      front = [[f1, f2, f3], [f4, f5, f6], [f7, f8, f9]],
      back' = [[k1, k2, k3], [k4, k5, k6], [k7, k8, k9]]\<rparr> =
   Inr \<lparr>top' = [[t1, t2, t3], [t4, t5, t6], [t7, t8, t9]],
        bottom = [[b1, b2, b3], [b4, b5, b6], [b7, b8, b9]],
        left = [[l1, l2, l3], [l4, l5, l6], [k7, k8, k9]],
        right = [[r1, r2, r3], [r4, r5, r6], [f7, f8, f9]],
        front = [[f1, f2, f3], [f4, f5, f6], [l7, l8, l9]],
        back' = [[k1, k2, k3], [k4, k5, k6], [r7, r8, r9]]\<rparr>"
  by (simp add: once_defs)

lemma rotate_y_once_0:
  "rotate_y_once 0
     \<lparr>top' = [[t1, t2, t3], [t4, t5, t6], [t7, t8, t9]],
      bottom = [[b1, b2, b3], [b4, b5, b6], [b7, b8, b9]],
      left = [[l1, l2, l3], [l4, l5, l6], [l7, l8, l9]],
      right = [[r1, r2, r3], [r4, r5, r6], [r7, r8, r9]],
      front = [[f1, f2, f3], [f4, f5, f6], [f7, f8, f9]],
      back' = [[k1, k2, k3], [k4, k5, k6], [k7, k8, k9]]\<rparr> =
   Inr \<lparr>top' = [[k9, t2, t3], [k6, t5, t6], [k3, t8, t9]],
        bottom = [[f1, b2, b3], [f4, b5, b6], [f7, b8, b9]],
        left = [[l1, l2, l3], [l4, l5, l6], [l7, l8, l9]],
        right = [[r1, r2, r3], [r4, r5, r6], [r7, r8, r9]],
        front = [[t1, f2, f3], [t4, f5, f6], [t7, f8, f9]],
        back' = [[k1, k2, b7], [k4, k5, b4], [k7, k8, b1]]\<rparr>"
  by (simp add: once_defs)

lemma rotate_y_once_1:
  "rotate_y_once 1
     \<lparr>top' = [[t1, t2, t3], [t4, t5, t6], [t7, t8, t9]],
      bottom = [[b1, b2, b3], [b4, b5, b6], [b7, b8, b9]],
      left = [[l1, l2, l3], [l4, l5, l6], [l7, l8, l9]],
      right = [[r1, r2, r3], [r4, r5, r6], [r7, r8, r9]],
      front = [[f1, f2, f3], [f4, f5, f6], [f7, f8, f9]],
      back' = [[k1, k2, k3], [k4, k5, k6], [k7, k8, k9]]\<rparr> =
   Inr \<lparr>top' = [[t1, k8, t3], [t4, k5, t6], [t7, k2, t9]],
        bottom = [[b1, f2, b3], [b4, f5, b6], [b7, f8, b9]],
        left = [[l1, l2, l3], [l4, l5, l6], [l7, l8, l9]],
        right = [[r1, r2, r3], [r4, r5, r6], [r7, r8, r9]],
        front = [[f1, t2, f3], [f4, t5, f6], [f7, t8, f9]],
        back' = [[k1, b8, k3], [k4, b5, k6], [k7, b2, k9]]\<rparr>"
  by (simp add: once_defs)

lemma rotate_y_once_2:
  "rotate_y_once 2
     \<lparr>top' = [[t1, t2, t3], [t4, t5, t6], [t7, t8, t9]],
      bottom = [[b1, b2, b3], [b4, b5, b6], [b7, b8, b9]],
      left = [[l1, l2, l3], [l4, l5, l6], [l7, l8, l9]],
      right = [[r1, r2, r3], [r4, r5, r6], [r7, r8, r9]],
      front = [[f1, f2, f3], [f4, f5, f6], [f7, f8, f9]],
      back' = [[k1, k2, k3], [k4, k5, k6], [k7, k8, k9]]\<rparr> =
   Inr \<lparr>top' = [[t1, t2, k7], [t4, t5, k4], [t7, t8, k1]],
        bottom = [[b1, b2, f3], [b4, b5, f6], [b7, b8, f9]],
        left = [[l1, l2, l3], [l4, l5, l6], [l7, l8, l9]],
        right = [[r1, r2, r3], [r4, r5, r6], [r7, r8, r9]],
        front = [[f1, f2, t3], [f4, f5, t6], [f7, f8, t9]],
        back' = [[b9, k2, k3], [b6, k5, k6], [b3, k8, k9]]\<rparr>"
  by (simp add: once_defs)

lemma rotate_z_once_0:
  "rotate_z_once 0
     \<lparr>top' = [[t1, t2, t3], [t4, t5, t6], [t7, t8, t9]],
      bottom = [[b1, b2, b3], [b4, b5, b6], [b7, b8, b9]],
      left = [[l1, l2, l3], [l4, l5, l6], [l7, l8, l9]],
      right = [[r1, r2, r3], [r4, r5, r6], [r7, r8, r9]],
      front = [[f1, f2, f3], [f4, f5, f6], [f7, f8, f9]],
      back' = [[k1, k2, k3], [k4, k5, k6], [k7, k8, k9]]\<rparr> =
   Inr \<lparr>top' = [[l7, l4, l1], [t4, t5, t6], [t7, t8, t9]],
        bottom = [[b1, b2, b3], [b4, b5, b6], [r9, r6, r3]],
        left = [[b7, l2, l3], [b8, l5, l6], [b9, l8, l9]],
        right = [[r1, r2, t1], [r4, r5, t2], [r7, r8, t3]],
        front = [[f1, f2, f3], [f4, f5, f6], [f7, f8, f9]],
        back' = [[k1, k2, k3], [k4, k5, k6], [k7, k8, k9]]\<rparr>"
  by (simp add: once_defs)

lemma rotate_z_once_1:
  "rotate_z_once 1
     \<lparr>top' = [[t1, t2, t3], [t4, t5, t6], [t7, t8, t9]],
      bottom = [[b1, b2, b3], [b4, b5, b6], [b7, b8, b9]],
      left = [[l1, l2, l3], [l4, l5, l6], [l7, l8, l9]],
      right = [[r1, r2, r3], [r4, r5, r6], [r7, r8, r9]],
      front = [[f1, f2, f3], [f4, f5, f6], [f7, f8, f9]],
      back' = [[k1, k2, k3], [k4, k5, k6], [k7, k8, k9]]\<rparr> =
   Inr \<lparr>top' = [[t1, t2, t3], [l8, l5, l2], [t7, t8, t9]],
        bottom = [[b1, b2, b3], [r8, r5, r2], [b7, b8, b9]],
        left = [[l1, b4, l3], [l4, b5, l6], [l7, b6, l9]],
        right = [[r1, t4, r3], [r4, t5, r6], [r7, t6, r9]],
        front = [[f1, f2, f3], [f4, f5, f6], [f7, f8, f9]],
        back' = [[k1, k2, k3], [k4, k5, k6], [k7, k8, k9]]\<rparr>"
  by (simp add: once_defs)

lemma rotate_z_once_2:
  "rotate_z_once 2
     \<lparr>top' = [[t1, t2, t3], [t4, t5, t6], [t7, t8, t9]],
      bottom = [[b1, b2, b3], [b4, b5, b6], [b7, b8, b9]],
      left = [[l1, l2, l3], [l4, l5, l6], [l7, l8, l9]],
      right = [[r1, r2, r3], [r4, r5, r6], [r7, r8, r9]],
      front = [[f1, f2, f3], [f4, f5, f6], [f7, f8, f9]],
      back' = [[k1, k2, k3], [k4, k5, k6], [k7, k8, k9]]\<rparr> =
   Inr \<lparr>top' = [[t1, t2, t3], [t4, t5, t6], [l9, l6, l3]],
        bottom = [[r7, r4, r1], [b4, b5, b6], [b7, b8, b9]],
        left = [[l1, l2, b1], [l4, l5, b2], [l7, l8, b3]],
        right = [[t7, r2, r3], [t8, r5, r6], [t9, r8, r9]],
        front = [[f1, f2, f3], [f4, f5, f6], [f7, f8, f9]],
        back' = [[k1, k2, k3], [k4, k5, k6], [k7, k8, k9]]\<rparr>"
  by (simp add: once_defs)


lemmas rotate_once_literal =
  rotate_x_once_0 rotate_x_once_1 rotate_x_once_2
  rotate_y_once_0 rotate_y_once_1 rotate_y_once_2
  rotate_z_once_0 rotate_z_once_1 rotate_z_once_2

lemma rotate_arr_once_literal:
  "rotate_arr_once [[a, b, c], [d, e, f], [g, h, i]] = [[g, d, a], [h, e, b], [i, f, c]]"
  by (simp add: rotate_arr_once_def)

lemmas turn_simps = rubix_rotate_x_def rubix_rotate_y_def rubix_rotate_z_def rotate_arr_def
  rotate_once_literal rotate_arr_once_literal bind_e_def Let_def eval_nat_numeral

lemma bind_e_eq_Inr: "bind_e m f = Inr r \<longleftrightarrow> (\<exists>v. m = Inr v \<and> f v = Inr r)"
  by (cases m) (simp_all add: bind_e_def)

lemma upto_1_18: "[1..18] = [1, 2, 3, 4, 5, 6, 7, 8, 9, 10, 11, 12, 13, 14, 15, 16, 17, 18 :: int]"
  by (simp add: upto_rec1)

lemma move18_cases:
  assumes "1 \<le> (m::int)" "m \<le> 18"
  obtains "m = 1" | "m = 2" | "m = 3" | "m = 4" | "m = 5" | "m = 6" | "m = 7" | "m = 8" | "m = 9"
    | "m = 10" | "m = 11" | "m = 12" | "m = 13" | "m = 14" | "m = 15" | "m = 16" | "m = 17" | "m = 18"
proof -
  from assms have "m \<in> set [1..18]" by simp
  then have "m = 1 \<or> m = 2 \<or> m = 3 \<or> m = 4 \<or> m = 5 \<or> m = 6 \<or> m = 7 \<or> m = 8 \<or> m = 9
      \<or> m = 10 \<or> m = 11 \<or> m = 12 \<or> m = 13 \<or> m = 14 \<or> m = 15 \<or> m = 16 \<or> m = 17 \<or> m = 18"
    unfolding upto_1_18 by simp
  then show ?thesis using that by blast
qed

lemma move9_cases:
  assumes "1 \<le> (m::int)" "m \<le> 9"
  obtains "m = 1" | "m = 2" | "m = 3" | "m = 4" | "m = 5" | "m = 6" | "m = 7" | "m = 8" | "m = 9"
  using assms by arith

lemma rotate_side_cw:
  "rotate_side 1 = rubix_rotate_x 2 1" "rotate_side 2 = rubix_rotate_x 1 1"
  "rotate_side 3 = rubix_rotate_x 0 1" "rotate_side 4 = rubix_rotate_y 0 1"
  "rotate_side 5 = rubix_rotate_y 1 1" "rotate_side 6 = rubix_rotate_y 2 1"
  "rotate_side 7 = rubix_rotate_z 0 1" "rotate_side 8 = rubix_rotate_z 1 1"
  "rotate_side 9 = rubix_rotate_z 2 1"
  by (rule ext, simp add: rotate_side_def)+

lemma rotate_side_ccw:
  "rotate_side 10 = rubix_rotate_x 2 3" "rotate_side 11 = rubix_rotate_x 1 3"
  "rotate_side 12 = rubix_rotate_x 0 3" "rotate_side 13 = rubix_rotate_y 0 3"
  "rotate_side 14 = rubix_rotate_y 1 3" "rotate_side 15 = rubix_rotate_y 2 3"
  "rotate_side 16 = rubix_rotate_z 0 3" "rotate_side 17 = rubix_rotate_z 1 3"
  "rotate_side 18 = rubix_rotate_z 2 3"
  by (rule ext, simp add: rotate_side_def)+

section \<open>What every turn preserves\<close>

lemma rotate_arr_once_grid3:
  assumes "grid3 g"
  shows "grid3 (rotate_arr_once g) \<and> mset (concat (rotate_arr_once g)) = mset (concat g)"
  using assms by (elim grid3_cases) (simp add: rotate_arr_once_literal)

lemma rotate_arr_grid3:
  assumes "grid3 g"
  shows "grid3 (rotate_arr g iters) \<and> mset (concat (rotate_arr g iters)) = mset (concat g)"
proof -
  have "grid3 ((rotate_arr_once ^^ n) g) \<and> mset (concat ((rotate_arr_once ^^ n) g)) = mset (concat g)" for n
    by (induction n) (use assms rotate_arr_once_grid3 in auto)
  then show ?thesis by (simp add: rotate_arr_def)
qed

lemma rotate_x_once_props:
  assumes "wf_state s" "y = 0 \<or> y = 1 \<or> y = 2"
  shows "\<exists>s'. rotate_x_once y s = Inr s' \<and> wf_state s' \<and> top' s' = top' s \<and> bottom s' = bottom s \<and>
              mset (all_cells s') = mset (all_cells s)"
  using assms(1)
proof (cases rule: wf_state_cases)
  case 1
  from assms(2) consider (a) "y = 0" | (b) "y = 1" | (c) "y = 2"
    by blast
  then show ?thesis
  proof cases
    case a
    show ?thesis
      unfolding 1 a rotate_x_once_0
      by (intro exI conjI, rule refl) (simp_all add: wf_state_def all_cells_def)
  next
    case b
    show ?thesis
      unfolding 1 b rotate_x_once_1
      by (intro exI conjI, rule refl) (simp_all add: wf_state_def all_cells_def)
  next
    case c
    show ?thesis
      unfolding 1 c rotate_x_once_2
      by (intro exI conjI, rule refl) (simp_all add: wf_state_def all_cells_def)
  qed
qed

lemma rotate_x_loop_props:
  assumes "y = 0 \<or> y = 1 \<or> y = 2"
  shows "wf_state s \<Longrightarrow>
         \<exists>s'. repeat_e n (rotate_x_once y) s = Inr s' \<and> wf_state s' \<and> top' s' = top' s \<and> bottom s' = bottom s \<and>
              mset (all_cells s') = mset (all_cells s)"
proof (induction n arbitrary: s)
  case 0
  then show ?case by simp
next
  case (Suc n)
  from rotate_x_once_props[OF Suc.prems assms] obtain s1
    where s1: "rotate_x_once y s = Inr s1" "wf_state s1" "top' s1 = top' s" "bottom s1 = bottom s"
      "mset (all_cells s1) = mset (all_cells s)"
    by blast
  from Suc.IH[OF s1(2)] obtain s2
    where s2: "repeat_e n (rotate_x_once y) s1 = Inr s2" "wf_state s2" "top' s2 = top' s1" "bottom s2 = bottom s1"
      "mset (all_cells s2) = mset (all_cells s1)"
    by blast
  show ?case
    by (rule exI[of _ s2]) (simp add: bind_e_def s1 s2)
qed

lemma rubix_rotate_x_props:
  assumes "wf_state s" "y = 0 \<or> y = 1 \<or> y = 2"
  shows "\<exists>s'. rubix_rotate_x y iters s = Inr s' \<and> wf_state s' \<and>
              mset (all_cells s') = mset (all_cells s) \<and>
              (y = 1 \<longrightarrow> top' s' = top' s \<and> bottom s' = bottom s)"
proof -
  from rotate_x_loop_props[OF assms(2) assms(1), of "nat iters"] obtain s1
    where s1: "repeat_e (nat iters) (rotate_x_once y) s = Inr s1" "wf_state s1"
      "top' s1 = top' s" "bottom s1 = bottom s" "mset (all_cells s1) = mset (all_cells s)"
    by blast
  from s1(2) have g: "grid3 (top' s1)" "grid3 (bottom s1)"
    by (simp_all add: wf_state_def)
  note ra = rotate_arr_grid3[OF g(1)] rotate_arr_grid3[OF g(2)]
  have r: "rubix_rotate_x y iters s =
      Inr (s1\<lparr>top' := (if y = 0 then rotate_arr (top' s1) (3 * iters) else top' s1),
              bottom := (if y = 2 then rotate_arr (bottom s1) (1 * iters) else bottom s1)\<rparr>)"
    by (simp add: rubix_rotate_x_def s1(1) bind_e_def Let_def)
  show ?thesis
    unfolding r
    by (intro exI conjI, rule refl) (use s1(2-) ra in \<open>auto simp: wf_state_def all_cells_def\<close>)
qed

lemma rotate_y_once_props:
  assumes "wf_state s" "x = 0 \<or> x = 1 \<or> x = 2"
  shows "\<exists>s'. rotate_y_once x s = Inr s' \<and> wf_state s' \<and> left s' = left s \<and> right s' = right s \<and>
              mset (all_cells s') = mset (all_cells s)"
  using assms(1)
proof (cases rule: wf_state_cases)
  case 1
  from assms(2) consider (a) "x = 0" | (b) "x = 1" | (c) "x = 2"
    by blast
  then show ?thesis
  proof cases
    case a
    show ?thesis
      unfolding 1 a rotate_y_once_0
      by (intro exI conjI, rule refl) (simp_all add: wf_state_def all_cells_def)
  next
    case b
    show ?thesis
      unfolding 1 b rotate_y_once_1
      by (intro exI conjI, rule refl) (simp_all add: wf_state_def all_cells_def)
  next
    case c
    show ?thesis
      unfolding 1 c rotate_y_once_2
      by (intro exI conjI, rule refl) (simp_all add: wf_state_def all_cells_def)
  qed
qed

lemma rotate_y_loop_props:
  assumes "x = 0 \<or> x = 1 \<or> x = 2"
  shows "wf_state s \<Longrightarrow>
         \<exists>s'. repeat_e n (rotate_y_once x) s = Inr s' \<and> wf_state s' \<and> left s' = left s \<and> right s' = right s \<and>
              mset (all_cells s') = mset (all_cells s)"
proof (induction n arbitrary: s)
  case 0
  then show ?case by simp
next
  case (Suc n)
  from rotate_y_once_props[OF Suc.prems assms] obtain s1
    where s1: "rotate_y_once x s = Inr s1" "wf_state s1" "left s1 = left s" "right s1 = right s"
      "mset (all_cells s1) = mset (all_cells s)"
    by blast
  from Suc.IH[OF s1(2)] obtain s2
    where s2: "repeat_e n (rotate_y_once x) s1 = Inr s2" "wf_state s2" "left s2 = left s1" "right s2 = right s1"
      "mset (all_cells s2) = mset (all_cells s1)"
    by blast
  show ?case
    by (rule exI[of _ s2]) (simp add: bind_e_def s1 s2)
qed

lemma rubix_rotate_y_props:
  assumes "wf_state s" "x = 0 \<or> x = 1 \<or> x = 2"
  shows "\<exists>s'. rubix_rotate_y x iters s = Inr s' \<and> wf_state s' \<and>
              mset (all_cells s') = mset (all_cells s) \<and>
              (x = 1 \<longrightarrow> left s' = left s \<and> right s' = right s)"
proof -
  from rotate_y_loop_props[OF assms(2) assms(1), of "nat iters"] obtain s1
    where s1: "repeat_e (nat iters) (rotate_y_once x) s = Inr s1" "wf_state s1"
      "left s1 = left s" "right s1 = right s" "mset (all_cells s1) = mset (all_cells s)"
    by blast
  from s1(2) have g: "grid3 (left s1)" "grid3 (right s1)"
    by (simp_all add: wf_state_def)
  note ra = rotate_arr_grid3[OF g(1)] rotate_arr_grid3[OF g(2)]
  have r: "rubix_rotate_y x iters s =
      Inr (s1\<lparr>left := (if x = 0 then rotate_arr (left s1) (1 * iters) else left s1),
              right := (if x = 2 then rotate_arr (right s1) (3 * iters) else right s1)\<rparr>)"
    by (simp add: rubix_rotate_y_def s1(1) bind_e_def Let_def)
  show ?thesis
    unfolding r
    by (intro exI conjI, rule refl) (use s1(2-) ra in \<open>auto simp: wf_state_def all_cells_def\<close>)
qed

lemma rotate_z_once_props:
  assumes "wf_state s" "z = 0 \<or> z = 1 \<or> z = 2"
  shows "\<exists>s'. rotate_z_once z s = Inr s' \<and> wf_state s' \<and> front s' = front s \<and> back' s' = back' s \<and>
              mset (all_cells s') = mset (all_cells s)"
  using assms(1)
proof (cases rule: wf_state_cases)
  case 1
  from assms(2) consider (a) "z = 0" | (b) "z = 1" | (c) "z = 2"
    by blast
  then show ?thesis
  proof cases
    case a
    show ?thesis
      unfolding 1 a rotate_z_once_0
      by (intro exI conjI, rule refl) (simp_all add: wf_state_def all_cells_def)
  next
    case b
    show ?thesis
      unfolding 1 b rotate_z_once_1
      by (intro exI conjI, rule refl) (simp_all add: wf_state_def all_cells_def)
  next
    case c
    show ?thesis
      unfolding 1 c rotate_z_once_2
      by (intro exI conjI, rule refl) (simp_all add: wf_state_def all_cells_def)
  qed
qed

lemma rotate_z_loop_props:
  assumes "z = 0 \<or> z = 1 \<or> z = 2"
  shows "wf_state s \<Longrightarrow>
         \<exists>s'. repeat_e n (rotate_z_once z) s = Inr s' \<and> wf_state s' \<and> front s' = front s \<and> back' s' = back' s \<and>
              mset (all_cells s') = mset (all_cells s)"
proof (induction n arbitrary: s)
  case 0
  then show ?case by simp
next
  case (Suc n)
  from rotate_z_once_props[OF Suc.prems assms] obtain s1
    where s1: "rotate_z_once z s = Inr s1" "wf_state s1" "front s1 = front s" "back' s1 = back' s"
      "mset (all_cells s1) = mset (all_cells s)"
    by blast
  from Suc.IH[OF s1(2)] obtain s2
    where s2: "repeat_e n (rotate_z_once z) s1 = Inr s2" "wf_state s2" "front s2 = front s1" "back' s2 = back' s1"
      "mset (all_cells s2) = mset (all_cells s1)"
    by blast
  show ?case
    by (rule exI[of _ s2]) (simp add: bind_e_def s1 s2)
qed

lemma rubix_rotate_z_props:
  assumes "wf_state s" "z = 0 \<or> z = 1 \<or> z = 2"
  shows "\<exists>s'. rubix_rotate_z z iters s = Inr s' \<and> wf_state s' \<and>
              mset (all_cells s') = mset (all_cells s) \<and>
              (z = 1 \<longrightarrow> front s' = front s \<and> back' s' = back' s)"
proof -
  from rotate_z_loop_props[OF assms(2) assms(1), of "nat iters"] obtain s1
    where s1: "repeat_e (nat iters) (rotate_z_once z) s = Inr s1" "wf_state s1"
      "front s1 = front s" "back' s1 = back' s" "mset (all_cells s1) = mset (all_cells s)"
    by blast
  from s1(2) have g: "grid3 (front s1)" "grid3 (back' s1)"
    by (simp_all add: wf_state_def)
  note ra = rotate_arr_grid3[OF g(1)] rotate_arr_grid3[OF g(2)]
  have r: "rubix_rotate_z z iters s =
      Inr (s1\<lparr>back' := (if z = 0 then rotate_arr (back' s1) (3 * iters) else back' s1),
              front := (if z = 2 then rotate_arr (front s1) (1 * iters) else front s1)\<rparr>)"
    by (simp add: rubix_rotate_z_def s1(1) bind_e_def Let_def)
  show ?thesis
    unfolding r
    by (intro exI conjI, rule refl) (use s1(2-) ra in \<open>auto simp: wf_state_def all_cells_def\<close>)
qed


lemma rotate_side_props:
  assumes "wf_state s" "1 \<le> m" "m \<le> 18"
  shows "\<exists>s'. rotate_side m s = Inr s' \<and> wf_state s' \<and> mset (all_cells s') = mset (all_cells s)"
proof -
  have x: "\<exists>s'. rubix_rotate_x v i s = Inr s' \<and> wf_state s' \<and> mset (all_cells s') = mset (all_cells s)"
    if "v = 0 \<or> v = 1 \<or> v = 2" for v i
    using rubix_rotate_x_props[OF assms(1) that, of i] by blast
  have y: "\<exists>s'. rubix_rotate_y v i s = Inr s' \<and> wf_state s' \<and> mset (all_cells s') = mset (all_cells s)"
    if "v = 0 \<or> v = 1 \<or> v = 2" for v i
    using rubix_rotate_y_props[OF assms(1) that, of i] by blast
  have z: "\<exists>s'. rubix_rotate_z v i s = Inr s' \<and> wf_state s' \<and> mset (all_cells s') = mset (all_cells s)"
    if "v = 0 \<or> v = 1 \<or> v = 2" for v i
    using rubix_rotate_z_props[OF assms(1) that, of i] by blast
  from assms(2,3) show ?thesis
    by (cases rule: move18_cases) (simp_all add: rotate_side_cw rotate_side_ccw x y z)
qed

lemma colour_count_mset: "colour_count c s = count (mset (all_cells s)) c"
  by (simp add: colour_count_def count_mset)

lemma wf_state_init: "wf_state Rubix2D_init"
  by (simp add: wf_state_def Rubix2D_init_def uniform_def grid3_def numeral_3_eq_3)

section \<open>A counter-clockwise move undoes its clockwise move\<close>

lemma rubix_rotate_x_inverse:
  assumes "wf_state s" "y = 0 \<or> y = 1 \<or> y = 2"
  shows "bind_e (rubix_rotate_x y 1 s) (rubix_rotate_x y 3) = Inr s"
  using assms(1)
proof (cases rule: wf_state_cases)
  case 1
  from assms(2) show ?thesis
    unfolding 1 by (elim disjE) (simp_all add: turn_simps)
qed

lemma rubix_rotate_y_inverse:
  assumes "wf_state s" "x = 0 \<or> x = 1 \<or> x = 2"
  shows "bind_e (rubix_rotate_y x 1 s) (rubix_rotate_y x 3) = Inr s"
  using assms(1)
proof (cases rule: wf_state_cases)
  case 1
  from assms(2) show ?thesis
    unfolding 1 by (elim disjE) (simp_all add: turn_simps)
qed

lemma rubix_rotate_z_inverse:
  assumes "wf_state s" "z = 0 \<or> z = 1 \<or> z = 2"
  shows "bind_e (rubix_rotate_z z 1 s) (rubix_rotate_z z 3) = Inr s"
  using assms(1)
proof (cases rule: wf_state_cases)
  case 1
  from assms(2) show ?thesis
    unfolding 1 by (elim disjE) (simp_all add: turn_simps)
qed



text \<open>
  C2. For every move \<open>m\<close> from 1 to 9 and every state of six 3 by 3 grids, \<open>rotate_side m\<close>
  followed by \<open>rotate_side (m + 9)\<close> gives back exactly the state it started from.
\<close>

theorem rotate_side_inverse:
  assumes "wf_state s" "1 \<le> m" "m \<le> 9"
  shows "\<exists>s'. rotate_side m s = Inr s' \<and> rotate_side (m + 9) s' = Inr s"
proof -
  have "bind_e (rotate_side m s) (rotate_side (m + 9)) = Inr s"
    using assms(2,3)
    by (cases rule: move9_cases)
       (simp_all add: rotate_side_cw rotate_side_ccw rubix_rotate_x_inverse
          rubix_rotate_y_inverse rubix_rotate_z_inverse assms(1))
  then show ?thesis by (simp add: bind_e_eq_Inr)
qed

theorem rotate_side_inverse_witness:
  "wf_state Rubix2D_init \<and> (1::int) \<le> 4 \<and> (4::int) \<le> 9 \<and>
   (\<exists>s'. rotate_side 4 Rubix2D_init = Inr s' \<and> rotate_side (4 + 9) s' = Inr Rubix2D_init)"
  using rotate_side_inverse [of Rubix2D_init 4] wf_state_init by simp

section \<open>The solved check\<close>

lemma init_literal:
  "Rubix2D_init =
     \<lparr>top' = [[''yellow'', ''yellow'', ''yellow''], [''yellow'', ''yellow'', ''yellow''],
              [''yellow'', ''yellow'', ''yellow'']],
      bottom = [[''white'', ''white'', ''white''], [''white'', ''white'', ''white''],
                [''white'', ''white'', ''white'']],
      left = [[''green'', ''green'', ''green''], [''green'', ''green'', ''green''],
              [''green'', ''green'', ''green'']],
      right = [[''blue'', ''blue'', ''blue''], [''blue'', ''blue'', ''blue''],
               [''blue'', ''blue'', ''blue'']],
      front = [[''red'', ''red'', ''red''], [''red'', ''red'', ''red''],
               [''red'', ''red'', ''red'']],
      back' = [[''orange'', ''orange'', ''orange''], [''orange'', ''orange'', ''orange''],
               [''orange'', ''orange'', ''orange'']]\<rparr>"
  by (simp add: Rubix2D_init_def uniform_def numeral_3_eq_3)

lemma is_solved_remdups:
  "is_solved s =
     list_all (\<lambda>side. length (remdups (concat side)) = 1)
       [top' s, bottom s, left s, right s, front s, back' s]"
  unfolding is_solved_def by (simp only: List.card_set)

lemma is_solved_init: "is_solved Rubix2D_init"
  by (simp add: init_literal is_solved_remdups)

lemma single_move_unsolved:
  assumes "1 \<le> m" "m \<le> 18"
  shows "\<exists>s'. rotate_side m Rubix2D_init = Inr s' \<and> \<not> is_solved s'"
  using assms
  by (cases rule: move18_cases)
     (simp_all add: rotate_side_cw rotate_side_ccw init_literal turn_simps is_solved_remdups)

text \<open>
  C3. \<open>is_solved\<close> is true of the state \<open>Rubix2D()\<close> builds, and false of the state any
  single move \<open>m\<close> from 1 to 18 turns it into.
\<close>

theorem is_solved_initial_and_after_one_move:
  "is_solved Rubix2D_init \<and>
   (\<forall>m. 1 \<le> m \<and> m \<le> 18 \<longrightarrow>
      (\<exists>s'. rotate_side m Rubix2D_init = Inr s' \<and> \<not> is_solved s'))"
  using is_solved_init single_move_unsolved by blast

theorem is_solved_initial_and_after_one_move_witness:
  "(1::int) \<le> 5 \<and> (5::int) \<le> 18 \<and>
   (\<exists>s'. rotate_side 5 Rubix2D_init = Inr s' \<and> \<not> is_solved s')"
  using is_solved_initial_and_after_one_move by simp

text \<open>
  C4. For every state of six 3 by 3 grids and every move \<open>m\<close> from 1 to 18, each colour
  occurs as often among the 54 cells after \<open>rotate_side m\<close> as before.
\<close>

theorem rotate_side_conserves_colours:
  assumes "wf_state s" "1 \<le> m" "m \<le> 18"
  shows "\<exists>s'. rotate_side m s = Inr s' \<and> (\<forall>c. colour_count c s' = colour_count c s)"
  using rotate_side_props[OF assms] by (auto simp: colour_count_mset)

theorem rotate_side_conserves_colours_witness:
  "wf_state Rubix2D_init \<and> (1::int) \<le> 7 \<and> (7::int) \<le> 18 \<and>
   (\<exists>s'. rotate_side 7 Rubix2D_init = Inr s' \<and>
      (\<forall>c. colour_count c s' = colour_count c Rubix2D_init))"
  using rotate_side_conserves_colours [of Rubix2D_init 7] wf_state_init by simp

text \<open>
  C7. The claim is that \<open>rotate_side\<close> rejects an index outside 1..18 with an error. It
  does not: the \<open>match\<close> has no default case, so the call returns normally and the cube
  is unchanged.
\<close>

theorem rotate_side_unknown_move_counterexample:
  "rotate_side 0 Rubix2D_init = Inr Rubix2D_init \<and> rotate_side 19 Rubix2D_init = Inr Rubix2D_init"
  by (simp add: rotate_side_def)

text \<open>
  C7 as amended. For every index outside 1..18, \<open>rotate_side\<close> raises nothing and
  returns with the cube unchanged.
\<close>

theorem rotate_side_unknown_move:
  "index < 1 \<or> 18 < index \<Longrightarrow> rotate_side index rubix = Inr rubix"
  by (auto simp: rotate_side_def)

theorem rotate_side_unknown_move_witness:
  "((-3::int) < 1 \<or> (18::int) < -3) \<and> rotate_side (-3) Rubix2D_init = Inr Rubix2D_init"
  using rotate_side_unknown_move [of "-3" Rubix2D_init] by simp

text \<open>
  C8. On a state of six 3 by 3 grids a middle-layer turn, whatever the number of
  iterations, succeeds and leaves the two grids across its axis as they were:
  \<open>rotate_x(1, iters)\<close> the top and bottom, \<open>rotate_y(1, iters)\<close> the left and right,
  \<open>rotate_z(1, iters)\<close> the front and back.
\<close>

theorem middle_layer_turn_rotates_no_grid:
  assumes "wf_state s"
  shows "(\<exists>s'. rubix_rotate_x 1 iters s = Inr s' \<and> top' s' = top' s \<and> bottom s' = bottom s) \<and>
         (\<exists>s'. rubix_rotate_y 1 iters s = Inr s' \<and> left s' = left s \<and> right s' = right s) \<and>
         (\<exists>s'. rubix_rotate_z 1 iters s = Inr s' \<and> front s' = front s \<and> back' s' = back' s)"
  using rubix_rotate_x_props[OF assms, of 1 iters] rubix_rotate_y_props[OF assms, of 1 iters]
    rubix_rotate_z_props[OF assms, of 1 iters]
  by auto

theorem middle_layer_turn_rotates_no_grid_witness:
  "wf_state Rubix2D_init \<and>
   (\<exists>s'. rubix_rotate_x 1 2 Rubix2D_init = Inr s' \<and> top' s' = top' Rubix2D_init \<and>
      bottom s' = bottom Rubix2D_init) \<and>
   (\<exists>s'. rubix_rotate_y 1 2 Rubix2D_init = Inr s' \<and> left s' = left Rubix2D_init \<and>
      right s' = right Rubix2D_init) \<and>
   (\<exists>s'. rubix_rotate_z 1 2 Rubix2D_init = Inr s' \<and> front s' = front Rubix2D_init \<and>
      back' s' = back' Rubix2D_init)"
  using middle_layer_turn_rotates_no_grid [of Rubix2D_init 2] wf_state_init by simp


section \<open>The solver on the cube one move from solved\<close>

lemma move_1_scrambled: "rotate_side 1 Rubix2D_init = Inr scrambled"
  by (simp add: rotate_side_cw init_literal turn_simps scrambled_def)

text \<open>
  C1. For the cube that move 1 makes of the solved cube, \<open>breath_first_search\<close> returns,
  whatever fuel it has beyond the first unit, the one-move sequence \<open>[10]\<close>, and move 10
  solves that cube.
\<close>

theorem solver_undoes_move_1:
  "\<exists>s1. rotate_side 1 Rubix2D_init = Inr s1 \<and>
     (\<forall>fuel. breath_first_search (Suc fuel)
               (top' s1) (front s1) (left s1) (right s1) (back' s1) (bottom s1) =
             Some (Inr [10])) \<and>
     (\<exists>s2. rotate_side 10 s1 = Inr s2 \<and> is_solved s2)"
  unfolding move_1_scrambled scrambled_def
  apply (intro exI conjI allI, rule refl)
    apply (simp add: breath_first_search_def upto_1_18 is_solved_remdups init_literal
      rotate_side_cw rotate_side_ccw turn_simps)
   apply (simp add: rotate_side_ccw turn_simps)
  apply (simp add: is_solved_remdups)
  done

section \<open>The transform engine\<close>

lemmas engine_defs = engine_rotate_x_def engine_rotate_y_def engine_rotate_z_def rotation_def
  rotate_x_body_def rotate_y_body_def rotate_z_body_def getitem_def py_index_def bind_e_def Let_def

text \<open>
  C5. On a point \<open>[x, y, z]\<close>, \<open>transform_coord\<close> raises \<open>TransformationError\<close> exactly when
  \<open>z \<le> 0\<close>, and for \<open>z > 0\<close> it returns \<open>[x / z * 15 * scale_factor, y / z * 15 * scale_factor]\<close>
  (over the reals).
\<close>

theorem transform_coord_behind_camera:
  "(transform_coord [x, y, z] scale_factor = Inl TransformationError \<longleftrightarrow> z \<le> 0) \<and>
   (0 < z \<longrightarrow>
      transform_coord [x, y, z] scale_factor =
        Inr [x / z * 15 * scale_factor, y / z * 15 * scale_factor])"
  by (simp add: transform_coord_def)

theorem transform_coord_behind_camera_witness:
  "(transform_coord [3, 4, 2] 25 = Inl TransformationError \<longleftrightarrow> (2::real) \<le> 0) \<and>
   (0::real) < 2 \<and> transform_coord [3, 4, 2] 25 = Inr [3 / 2 * 15 * 25, 4 / 2 * 15 * 25]"
  using transform_coord_behind_camera [of 3 4 2 25] by simp

text \<open>
  C6. The claim is that each rotation function holds the coordinate of the axis in its
  name. \<open>rotate_x\<close> and \<open>rotate_y\<close> do not: a half turn by \<open>rotate_x\<close> takes the point
  \<open>(1, 0, 0)\<close> to \<open>(-1, 0, 0)\<close>, and one by \<open>rotate_y\<close> takes \<open>(0, 1, 0)\<close> to \<open>(0, -1, 0)\<close>.
\<close>

theorem engine_rotate_named_axis_counterexample:
  "engine_rotate_x [1, 0, 0] [0, 0, 0] 180 = Inr (-1, 0, 0) \<and>
   engine_rotate_y [0, 1, 0] [0, 0, 0] 180 = Inr (0, -1, 0)"
  by (simp add: engine_defs radians_def)

text \<open>
  C6 as amended. \<open>rotate_x\<close> holds the y coordinate and rotates x and z about the centre,
  \<open>rotate_y\<close> holds the x coordinate and rotates y and z, \<open>rotate_z\<close> holds the z coordinate
  and rotates x and y, each by the cosine and sine of the angle.
\<close>

theorem engine_rotate_fixed_coordinate:
  "engine_rotate_x [x, y, z] [cx, cy, cz] angle =
     Inr ((x - cx) * cos (radians angle) - (z - cz) * sin (radians angle) + cx,
          y,
          (z - cz) * cos (radians angle) + (x - cx) * sin (radians angle) + cz) \<and>
   engine_rotate_y [x, y, z] [cx, cy, cz] angle =
     Inr (x,
          (y - cy) * cos (radians angle) - (z - cz) * sin (radians angle) + cy,
          (z - cz) * cos (radians angle) + (y - cy) * sin (radians angle) + cz) \<and>
   engine_rotate_z [x, y, z] [cx, cy, cz] angle =
     Inr ((x - cx) * cos (radians angle) - (y - cy) * sin (radians angle) + cx,
          (y - cy) * cos (radians angle) + (x - cx) * sin (radians angle) + cy,
          z)"
  by (simp add: engine_defs)

section \<open>Layer selection\<close>

lemma fold_max_Max: "fold max vs (v::real) = Max (set (v # vs))"
  by (simp only: Max.set_eq_fold)

lemma fold_min_Min: "fold min vs (v::real) = Min (set (v # vs))"
  by (simp only: Min.set_eq_fold)

lemma filter_cubes_straddles:
  assumes "axis_coords c index = Inr coords" "coords \<noteq> []"
  shows "filter_cubes c index target =
           Inr (Max (set coords) > target \<and> target > Min (set coords))"
proof -
  from assms(2) obtain v vs where c: "coords = v # vs" by (cases coords) auto
  show ?thesis
    unfolding filter_cubes_def assms(1) c py_max_def py_min_def fold_max_Max fold_min_Min
    by (simp add: bind_e_def)
qed

lemmas cube_defs = Cube_init_def CUBE_VERTS_def CUBE_POLYS_def Shape_init_def
  filter_cubes_def axis_coords_def py_max_def py_min_def getitem_def py_index_def bind_e_def Let_def

lemma filter_cubes_initial:
  "filter_cubes (Cube_init x 1 z cs6) 1 1 = Inr True"
  "filter_cubes (Cube_init x 0 z cs6) 1 1 = Inr False"
  "filter_cubes (Cube_init x (-1) z cs6) 1 1 = Inr False"
  if "length cs6 = 6" for cs6
proof -
  from that obtain c1 c2 c3 c4 c5 c6 where "cs6 = [c1, c2, c3, c4, c5, c6]"
    by (cases cs6; cases "tl cs6"; cases "tl (tl cs6)"; cases "tl (tl (tl cs6))";
        cases "tl (tl (tl (tl cs6)))"; cases "tl (tl (tl (tl (tl cs6))))";
        cases "tl (tl (tl (tl (tl (tl cs6)))))") auto
  then show "filter_cubes (Cube_init x 1 z cs6) 1 1 = Inr True"
    "filter_cubes (Cube_init x 0 z cs6) 1 1 = Inr False"
    "filter_cubes (Cube_init x (-1) z cs6) 1 1 = Inr False"
    by (simp_all add: cube_defs)
qed


lemma cube_y_init: "cube_y (Cube_init x y z cs) = y"
  by (simp add: Cube_init_def)

text \<open>
  C9. On the cubes \<open>main\<close> creates, \<open>filter_cubes\<close> with index 1 and target 1 accepts a
  cube exactly when its \<open>y\<close> is 1, and these are nine cubes; and whenever the coordinates
  of a cube on the axis can be read, it accepts the cube exactly when their maximum is
  greater and their minimum is less than the target.
\<close>

theorem filter_cubes_y_layer:
  "(\<forall>c\<in>set ALL_CUBES. filter_cubes c 1 1 = Inr (cube_y c = 1)) \<and>
   map (\<lambda>c. (cube_x c, cube_y c, cube_z c))
     (filter (\<lambda>c. filter_cubes c 1 1 = Inr True) ALL_CUBES) =
     [(0, 1, 0), (1, 1, 0), (1, 1, -1), (1, 1, 1), (0, 1, -1), (-1, 1, -1), (0, 1, 1),
      (-1, 1, 1), (-1, 1, 0)] \<and>
   (\<forall>c index target coords.
      axis_coords c index = Inr coords \<and> coords \<noteq> [] \<longrightarrow>
      filter_cubes c index target =
        Inr (Max (set coords) > target \<and> target > Min (set coords)))"
proof (intro conjI)
  show "\<forall>c\<in>set ALL_CUBES. filter_cubes c 1 1 = Inr (cube_y c = 1)"
    by (simp add: ALL_CUBES_def filter_cubes_initial cube_y_init)
  show "map (\<lambda>c. (cube_x c, cube_y c, cube_z c))
     (filter (\<lambda>c. filter_cubes c 1 1 = Inr True) ALL_CUBES) =
     [(0, 1, 0), (1, 1, 0), (1, 1, -1), (1, 1, 1), (0, 1, -1), (-1, 1, -1), (0, 1, 1),
      (-1, 1, 1), (-1, 1, 0)]"
    by (simp add: ALL_CUBES_def filter_cubes_initial) (simp add: Cube_init_def)
  show "\<forall>c index target coords.
      axis_coords c index = Inr coords \<and> coords \<noteq> [] \<longrightarrow>
      filter_cubes c index target =
        Inr (Max (set coords) > target \<and> target > Min (set coords))"
    using filter_cubes_straddles by blast
qed

theorem filter_cubes_y_layer_witness:
  "Cube_init 0 1 0 [''black'', ''black'', ''black'', ''black'', ''white'', ''black'']
     \<in> set ALL_CUBES \<and>
   filter_cubes
     (Cube_init 0 1 0 [''black'', ''black'', ''black'', ''black'', ''white'', ''black'']) 1 1 =
     Inr True \<and>
   axis_coords
     (Cube_init 0 1 0 [''black'', ''black'', ''black'', ''black'', ''white'', ''black'']) 1 =
     Inr [1/2, 1/2, 3/2, 3/2, 1/2, 1/2, 3/2, 3/2, 1/2, 1/2, 1/2, 1/2,
          1/2, 3/2, 3/2, 1/2, 3/2, 3/2, 3/2, 3/2, 3/2, 1/2, 1/2, 3/2] \<and>
   Max (set [1/2, 1/2, 3/2, 3/2, 1/2, 1/2, 3/2, 3/2, 1/2, 1/2, 1/2, 1/2,
             1/2, 3/2, 3/2, 1/2, 3/2, 3/2, 3/2, 3/2, 3/2, 1/2, 1/2, 3/2 :: real]) > 1 \<and>
   1 > Min (set [1/2, 1/2, 3/2, 3/2, 1/2, 1/2, 3/2, 3/2, 1/2, 1/2, 1/2, 1/2,
                 1/2, 3/2, 3/2, 1/2, 3/2, 3/2, 3/2, 3/2, 3/2, 1/2, 1/2, 3/2 :: real])"
proof -
  let ?c = "Cube_init 0 1 0 [''black'', ''black'', ''black'', ''black'', ''white'', ''black'']"
  let ?ys = "[1/2, 1/2, 3/2, 3/2, 1/2, 1/2, 3/2, 3/2, 1/2, 1/2, 1/2, 1/2,
              1/2, 3/2, 3/2, 1/2, 3/2, 3/2, 3/2, 3/2, 3/2, 1/2, 1/2, 3/2 :: real]"
  have m: "?c \<in> set ALL_CUBES"
    by (simp add: ALL_CUBES_def)
  have a: "axis_coords ?c 1 = Inr ?ys"
    by (simp add: cube_defs)
  note t = filter_cubes_y_layer
  from t[THEN conjunct1] m have f: "filter_cubes ?c 1 1 = Inr (cube_y ?c = 1)"
    by (rule bspec)
  from t[THEN conjunct2, THEN conjunct2] a
  have s: "filter_cubes ?c 1 1 = Inr (Max (set ?ys) > 1 \<and> 1 > Min (set ?ys))"
    by blast
  from f have f': "filter_cubes ?c 1 1 = Inr True"
    by (simp add: cube_y_init)
  from s f' have "Max (set ?ys) > 1 \<and> 1 > Min (set ?ys)"
    by simp
  with m f' a show ?thesis
    by blast
qed

section \<open>The solver and the grids it is given\<close>

lemma same_below_refl: "same_below n h h"
  by (simp add: same_below_def)

lemma same_below_trans: "same_below n h1 h2 \<Longrightarrow> same_below n h2 h3 \<Longrightarrow> same_below n h1 h3"
  by (simp add: same_below_def)

lemma keepsI:
  assumes "\<And>h r h'. above n h \<Longrightarrow> m h = (r, h') \<Longrightarrow>
             above n h' \<and> same_below n h h' \<and> (\<forall>v. r = Inr v \<longrightarrow> Q v)"
  shows "keeps n m Q"
  using assms unfolding keeps_def by blast

lemma keepsD:
  assumes "keeps n m Q" "above n h" "m h = (r, h')"
  shows "above n h'" "same_below n h h'" "\<And>v. r = Inr v \<Longrightarrow> Q v"
  using assms unfolding keeps_def by blast+

lemma keeps_return: "Q v \<Longrightarrow> keeps n (return_h v) Q"
  by (simp add: keeps_def return_h_def same_below_refl)

lemma keeps_lift: "(\<And>v. r = Inr v \<Longrightarrow> Q v) \<Longrightarrow> keeps n (lift_e r) Q"
  by (simp add: keeps_def lift_e_def same_below_refl)

lemma keeps_weaken: "keeps n m Q \<Longrightarrow> (\<And>v. Q v \<Longrightarrow> Q' v) \<Longrightarrow> keeps n m Q'"
  unfolding keeps_def by blast

lemma keeps_bind:
  assumes m: "keeps n m Q" and f: "\<And>v. Q v \<Longrightarrow> keeps n (f v) Q'"
  shows "keeps n (bind_h m f) Q'"
proof (rule keepsI)
  fix h r h'
  assume a: "above n h" and b: "bind_h m f h = (r, h')"
  obtain r1 h1 where m1: "m h = (r1, h1)" by (cases "m h")
  note k1 = keepsD[OF m a m1]
  show "above n h' \<and> same_below n h h' \<and> (\<forall>v. r = Inr v \<longrightarrow> Q' v)"
  proof (cases r1)
    case (Inl e)
    with b m1 have "r = Inl e" "h' = h1" by (simp_all add: bind_h_def)
    with k1 show ?thesis by simp
  next
    case (Inr v)
    with b m1 have fv: "f v h1 = (r, h')" by (simp add: bind_h_def)
    from k1(3)[OF Inr] have "keeps n (f v) Q'" by (rule f)
    from keepsD[OF this k1(1) fv] k1(2) show ?thesis
      by (blast intro: same_below_trans)
  qed
qed

lemma keeps_if:
  "(c \<Longrightarrow> keeps n a Q) \<Longrightarrow> (\<not> c \<Longrightarrow> keeps n b Q) \<Longrightarrow> keeps n (if c then a else b) Q"
  by simp

lemma keeps_case_prod:
  "(\<And>a b. v = (a, b) \<Longrightarrow> keeps n (f a b) Q) \<Longrightarrow> keeps n (case v of (a, b) \<Rightarrow> f a b) Q"
  by (cases v) simp

lemma keeps_new_row: "keeps n (new_row cs) (\<lambda>r. n \<le> r)"
  by (auto simp: keeps_def new_row_def above_def same_below_def)

lemma keeps_new_grid: "\<forall>r\<in>set rs. n \<le> r \<Longrightarrow> keeps n (new_grid rs) (\<lambda>g. n \<le> g)"
  by (auto simp: keeps_def new_grid_def above_def same_below_def)

lemma keeps_read_row: "keeps n (read_row r) (\<lambda>_. True)"
  by (auto simp: keeps_def read_row_def same_below_def split: option.splits)

lemma keeps_read_grid: "keeps n (read_grid g) (\<lambda>rs. n \<le> g \<longrightarrow> (\<forall>r\<in>set rs. n \<le> r))"
  by (auto simp: keeps_def read_grid_def same_below_def above_def split: option.splits)

lemma keeps_write_row: "n \<le> r \<Longrightarrow> keeps n (write_row r cs) (\<lambda>_. True)"
  by (auto simp: keeps_def write_row_def above_def same_below_def)

lemma keeps_write_grid:
  "n \<le> g \<Longrightarrow> \<forall>r\<in>set rs. n \<le> r \<Longrightarrow> keeps n (write_grid g rs) (\<lambda>_. True)"
  by (auto simp: keeps_def write_grid_def above_def same_below_def)

lemma keeps_repeat: "keeps n body (\<lambda>_. True) \<Longrightarrow> keeps n (repeat_h k body) (\<lambda>_. True)"
  by (induction k) (auto intro: keeps_return keeps_bind)

lemma keeps_for:
  "(\<And>x. keeps n (body x) (\<lambda>_. True)) \<Longrightarrow> keeps n (for_h xs body) (\<lambda>_. True)"
  by (induction xs) (auto intro: keeps_return keeps_bind)

lemma keeps_map:
  assumes "\<And>x. keeps n (f x) Q"
  shows "keeps n (map_h f xs) (\<lambda>ys. \<forall>y\<in>set ys. Q y)"
proof (induction xs)
  case Nil
  show ?case by (simp add: keeps_return)
next
  case (Cons x xs)
  show ?case
    unfolding map_h.simps
    by (rule keeps_bind[OF assms], rule keeps_bind[OF Cons.IH], rule keeps_return) simp
qed

lemma keeps_grid_value: "keeps n (grid_value g) (\<lambda>_. True)"
  unfolding grid_value_def
  by (rule keeps_bind[OF keeps_read_grid], rule keeps_weaken[OF keeps_map[OF keeps_read_row]]) simp

lemma keeps_new_grid_value: "keeps n (new_grid_value v) (\<lambda>g. n \<le> g)"
  unfolding new_grid_value_def
  apply (rule keeps_bind[OF keeps_new_grid], simp)
  apply (rule keeps_bind[OF keeps_map[OF keeps_new_row]])
  apply (rule keeps_bind[OF keeps_write_grid], assumption, assumption)
  apply (rule keeps_return, assumption)
  done

lemma getitem_in_set: "getitem xs i = Inr x \<Longrightarrow> x \<in> set xs"
  by (auto simp: getitem_def py_index_def Let_def split: option.splits if_splits)

lemma setitem_subset: "setitem xs i v = Inr ys \<Longrightarrow> set ys \<subseteq> insert v (set xs)"
  by (auto simp: setitem_def split: option.splits dest: set_update_subset_insert[THEN subsetD])

lemma keeps_getrow: "n \<le> g \<Longrightarrow> keeps n (h_getrow g y) (\<lambda>r. n \<le> r)"
  unfolding h_getrow_def
  by (rule keeps_bind[OF keeps_read_grid], rule keeps_lift) (auto dest: getitem_in_set)

lemma keeps_setrow: "n \<le> g \<Longrightarrow> n \<le> r \<Longrightarrow> keeps n (h_setrow g y r) (\<lambda>_. True)"
  unfolding h_setrow_def
  apply (rule keeps_bind[OF keeps_read_grid])
  apply (rule keeps_bind[where Q = "\<lambda>rs'. \<forall>r\<in>set rs'. n \<le> r"])
   apply (rule keeps_lift)
   apply (auto dest!: setitem_subset intro: keeps_write_grid)
  done

lemma keeps_setcell: "n \<le> g \<Longrightarrow> keeps n (h_setcell g i j v) (\<lambda>_. True)"
  unfolding h_setcell_def
  apply (rule keeps_bind[OF keeps_read_grid])
  apply (rule keeps_bind[where Q = "\<lambda>r. n \<le> r"])
   apply (rule keeps_lift)
   apply (auto dest: getitem_in_set)[1]
  apply (rule keeps_bind[OF keeps_read_row])
  apply (rule keeps_bind[where Q = "\<lambda>_. True"])
   apply (rule keeps_lift, simp)
  apply (rule keeps_write_row, assumption)
  done


lemma memo_above_empty: "memo_above n empty_memo"
  by (simp add: memo_above_def empty_memo_def)

lemma keeps_deepcopy_row:
  assumes "memo_above n m"
  shows "keeps n (deepcopy_row m r) (\<lambda>(r', m'). n \<le> r' \<and> memo_above n m')"
proof (cases "row_memo m r")
  case None
  show ?thesis
    unfolding deepcopy_row_def None option.case
    by (rule keeps_bind[OF keeps_read_row], rule keeps_bind[OF keeps_new_row], rule keeps_return)
       (use assms in \<open>auto simp: memo_above_def\<close>)
next
  case (Some r')
  with assms show ?thesis
    by (auto simp: deepcopy_row_def memo_above_def intro!: keeps_return)
qed

lemma keeps_deepcopy_rows:
  "memo_above n m \<Longrightarrow>
   keeps n (deepcopy_rows m rs) (\<lambda>(rs', m'). (\<forall>r\<in>set rs'. n \<le> r) \<and> memo_above n m')"
proof (induction rs arbitrary: m)
  case Nil
  then show ?case by (simp add: keeps_return)
next
  case (Cons r rs)
  show ?case
    unfolding deepcopy_rows.simps
    apply (rule keeps_bind[OF keeps_deepcopy_row[OF Cons.prems]])
    apply (rule keeps_case_prod)
    apply (rule keeps_bind[OF Cons.IH])
     apply simp
    apply (rule keeps_case_prod)
    apply (rule keeps_return)
    apply simp
    done
qed

lemma keeps_deepcopy_grid:
  assumes "memo_above n m"
  shows "keeps n (deepcopy_grid m g) (\<lambda>(g', m'). n \<le> g' \<and> memo_above n m')"
proof (cases "grid_memo m g")
  case None
  show ?thesis
    unfolding deepcopy_grid_def None option.case
    apply (rule keeps_bind[OF keeps_read_grid])
    apply (rule keeps_bind[OF keeps_new_grid], simp)
    apply (rule keeps_bind[OF keeps_deepcopy_rows])
     apply (use assms in \<open>simp add: memo_above_def\<close>)
    apply (rule keeps_case_prod)
    apply (rule keeps_bind[OF keeps_write_grid], assumption, simp)
    apply (rule keeps_return)
    apply simp
    done
next
  case (Some g')
  with assms show ?thesis
    by (auto simp: deepcopy_grid_def memo_above_def intro!: keeps_return)
qed

lemma keeps_deepcopy: "keeps n (deepcopy g) (\<lambda>g'. n \<le> g')"
  unfolding deepcopy_def
  by (rule keeps_bind[OF keeps_deepcopy_grid[OF memo_above_empty]], rule keeps_case_prod,
      rule keeps_return) simp

lemma keeps_Rubix2D_init: "keeps n h_Rubix2D_init (rubix_above n)"
  unfolding h_Rubix2D_init_def
  by (intro keeps_bind[OF keeps_new_grid_value] keeps_return) (simp add: rubix_above_def)

lemma keeps_deepcopy_rubix: "keeps n (deepcopy_rubix rubix) (rubix_above n)"
  unfolding deepcopy_rubix_def
  apply (rule keeps_bind[OF keeps_deepcopy_grid[OF memo_above_empty]], rule keeps_case_prod)
  apply (rule keeps_bind[OF keeps_deepcopy_grid], simp, rule keeps_case_prod)
  apply (rule keeps_bind[OF keeps_deepcopy_grid], simp, rule keeps_case_prod)
  apply (rule keeps_bind[OF keeps_deepcopy_grid], simp, rule keeps_case_prod)
  apply (rule keeps_bind[OF keeps_deepcopy_grid], simp, rule keeps_case_prod)
  apply (rule keeps_bind[OF keeps_deepcopy_grid], simp, rule keeps_case_prod)
  apply (rule keeps_return)
  apply (simp add: rubix_above_def)
  done

lemma keeps_rotate_arr: "keeps n (h_rotate_arr arr iters) (\<lambda>g. n \<le> g)"
  unfolding h_rotate_arr_def
  by (rule keeps_bind[OF keeps_grid_value], rule keeps_new_grid_value)

lemma keeps_rotate_x_once:
  assumes "rubix_above n rubix"
  shows "keeps n (h_rotate_x_once y rubix) (\<lambda>_. True)"
proof -
  from assms have a: "n \<le> left_ref rubix" "n \<le> front_ref rubix" "n \<le> right_ref rubix"
    "n \<le> back_ref rubix"
    by (simp_all add: rubix_above_def)
  show ?thesis
    unfolding h_rotate_x_once_def
    by (intro keeps_bind[OF keeps_getrow] keeps_bind[OF keeps_setrow] keeps_setrow a)
qed

lemma keeps_getcell: "keeps n (h_getcell g i j) (\<lambda>_. True)"
  unfolding h_getcell_def
  apply (rule keeps_bind[OF keeps_read_grid])
  apply (rule keeps_bind[where Q = "\<lambda>_. True"])
   apply (rule keeps_lift, simp)
  apply (rule keeps_bind[OF keeps_read_row])
  apply (rule keeps_lift, simp)
  done

lemma keeps_copy_cell:
  assumes "n \<le> g" "keeps n (k ()) Q"
  shows "keeps n (bind_h (h_getcell g0 i0 j0) (\<lambda>v. bind_h (h_setcell g i j v) k)) Q"
  apply (rule keeps_bind[OF keeps_getcell])
  apply (rule keeps_bind[OF keeps_setcell[OF assms(1)]])
  apply (use assms(2) in simp)
  done

lemma keeps_copy_cell_last:
  assumes "n \<le> g"
  shows "keeps n (bind_h (h_getcell g0 i0 j0) (\<lambda>v. h_setcell g i j v)) (\<lambda>_. True)"
  by (rule keeps_bind[OF keeps_getcell], rule keeps_setcell[OF assms])

lemma keeps_rotate_y_once:
  assumes "rubix_above n rubix"
  shows "keeps n (h_rotate_y_once x rubix) (\<lambda>_. True)"
proof -
  from assms have a: "n \<le> top_ref rubix" "n \<le> front_ref rubix" "n \<le> bottom_ref rubix"
    "n \<le> back_ref rubix"
    by (simp_all add: rubix_above_def)
  show ?thesis
    unfolding h_rotate_y_once_def
    apply (intro keeps_bind[OF keeps_deepcopy])
    apply (cases "INVERSE x")
     apply (simp add: keeps_lift)
    apply (simp only: option.case)
    apply (rule keeps_bind[where Q = "\<lambda>_. True"])
     apply (rule keeps_for)
     apply (rule keeps_copy_cell[OF _ keeps_copy_cell_last]; rule a)
    apply (rule keeps_for)
    apply (rule keeps_case_prod)
    apply (rule keeps_copy_cell[OF _ keeps_copy_cell_last]; rule a)
    done
qed

lemma keeps_rotate_z_once:
  assumes "rubix_above n rubix"
  shows "keeps n (h_rotate_z_once z rubix) (\<lambda>_. True)"
proof -
  from assms have a: "n \<le> top_ref rubix" "n \<le> left_ref rubix" "n \<le> bottom_ref rubix"
    "n \<le> right_ref rubix"
    by (simp_all add: rubix_above_def)
  show ?thesis
    unfolding h_rotate_z_once_def
    apply (intro keeps_bind[OF keeps_deepcopy])
    apply (cases "INVERSE z")
     apply (simp add: keeps_lift)
    apply (simp only: option.case)
    apply (rule keeps_bind[where Q = "\<lambda>_. True"])
     apply (rule keeps_for)
     apply (rule keeps_case_prod)
     apply (rule keeps_copy_cell[OF _ keeps_copy_cell_last]; rule a)
    apply (rule keeps_for)
    apply (rule keeps_copy_cell[OF _ keeps_copy_cell_last]; rule a)
    done
qed

lemma keeps_rebind:
  assumes "n \<le> a"
  shows "keeps n (if c then h_rotate_arr a i else return_h a) (\<lambda>g. n \<le> g)"
  using assms by (simp add: keeps_rotate_arr keeps_return)

lemma keeps_rubix_rotate_x:
  assumes "rubix_above n rubix"
  shows "keeps n (h_rubix_rotate_x y iters rubix) (rubix_above n)"
  unfolding h_rubix_rotate_x_def
  apply (rule keeps_bind[OF keeps_repeat[OF keeps_rotate_x_once[OF assms]]])
  apply (rule keeps_bind[OF keeps_rebind], use assms in \<open>simp add: rubix_above_def\<close>)
  apply (rule keeps_bind[OF keeps_rebind], use assms in \<open>simp add: rubix_above_def\<close>)
  apply (rule keeps_return, use assms in \<open>simp add: rubix_above_def\<close>)
  done

lemma keeps_rubix_rotate_y:
  assumes "rubix_above n rubix"
  shows "keeps n (h_rubix_rotate_y x iters rubix) (rubix_above n)"
  unfolding h_rubix_rotate_y_def
  apply (rule keeps_bind[OF keeps_repeat[OF keeps_rotate_y_once[OF assms]]])
  apply (rule keeps_bind[OF keeps_rebind], use assms in \<open>simp add: rubix_above_def\<close>)
  apply (rule keeps_bind[OF keeps_rebind], use assms in \<open>simp add: rubix_above_def\<close>)
  apply (rule keeps_return, use assms in \<open>simp add: rubix_above_def\<close>)
  done

lemma keeps_rubix_rotate_z:
  assumes "rubix_above n rubix"
  shows "keeps n (h_rubix_rotate_z z iters rubix) (rubix_above n)"
  unfolding h_rubix_rotate_z_def
  apply (rule keeps_bind[OF keeps_repeat[OF keeps_rotate_z_once[OF assms]]])
  apply (rule keeps_bind[OF keeps_rebind], use assms in \<open>simp add: rubix_above_def\<close>)
  apply (rule keeps_bind[OF keeps_rebind], use assms in \<open>simp add: rubix_above_def\<close>)
  apply (rule keeps_return, use assms in \<open>simp add: rubix_above_def\<close>)
  done

lemma keeps_rotate_side:
  assumes "rubix_above n rubix"
  shows "keeps n (h_rotate_side index rubix) (rubix_above n)"
  unfolding h_rotate_side_def
  by (intro keeps_if keeps_rubix_rotate_x keeps_rubix_rotate_y keeps_rubix_rotate_z
        keeps_return assms)

lemma keeps_rubix_value: "keeps n (h_rubix_value rubix) (\<lambda>_. True)"
  unfolding h_rubix_value_def
  by (intro keeps_bind[OF keeps_grid_value] keeps_return TrueI)

lemma keeps_is_solved: "keeps n (h_is_solved rubix) (\<lambda>_. True)"
  unfolding h_is_solved_def
  by (rule keeps_bind[OF keeps_rubix_value], rule keeps_return) simp

lemma keeps_expand:
  "queue_above n queue \<Longrightarrow>
   keeps n (h_expand steps rubix moves queue)
     (\<lambda>res. case res of Inl _ \<Rightarrow> True | Inr queue' \<Rightarrow> queue_above n queue')"
proof (induction moves arbitrary: queue)
  case Nil
  then show ?case by (simp add: keeps_return)
next
  case (Cons move moves)
  show ?case
    unfolding h_expand.simps
    apply (rule keeps_bind[OF keeps_deepcopy_rubix])
    apply (rule keeps_bind[OF keeps_rotate_side], assumption)
    apply (rule keeps_bind[OF keeps_is_solved])
    apply (rule keeps_if)
     apply (simp add: keeps_return)
    apply (rule Cons.IH)
    apply (use Cons.prems in \<open>simp add: queue_above_def\<close>)
    done
qed

lemma bfs_loop_frame:
  "above n h \<Longrightarrow> queue_above n queue \<Longrightarrow> h_bfs_loop fuel queue h = (res, h') \<Longrightarrow>
   above n h' \<and> same_below n h h'"
proof (induction fuel arbitrary: queue h)
  case 0
  then show ?case by (simp add: same_below_refl)
next
  case (Suc fuel)
  show ?case
  proof (cases queue)
    case Nil
    with Suc.prems show ?thesis by (simp add: same_below_refl)
  next
    case (Cons node queue1)
    obtain steps rubix where node: "node = (steps, rubix)" by (cases node)
    from Suc.prems(2) Cons have q1: "queue_above n queue1" by (simp add: queue_above_def)
    obtain r1 h1 where e: "h_expand steps rubix [1..18] queue1 h = (r1, h1)"
      by (cases "h_expand steps rubix [1..18] queue1 h")
    note k = keepsD[OF keeps_expand[OF q1] Suc.prems(1) e]
    show ?thesis
    proof (cases r1)
      case (Inl err)
      with Suc.prems(3) Cons node e k show ?thesis by simp
    next
      case (Inr found)
      show ?thesis
      proof (cases found)
        case (Inl new_steps)
        with Suc.prems(3) Cons node e k Inr show ?thesis by simp
      next
        case (Inr queue2)
        with \<open>r1 = Inr found\<close> k(3) have q2: "queue_above n queue2" by fastforce
        from Suc.prems(3) Cons node e Inr \<open>r1 = Inr found\<close>
        have "h_bfs_loop fuel queue2 h1 = (res, h')" by simp
        from Suc.IH[OF k(1) q2 this] k(2) show ?thesis
          by (blast intro: same_below_trans)
      qed
    qed
  qed
qed

lemma keeps_setup:
  "keeps n (h_setup top_in front_in left_in right_in back_in bottom_in)
     (\<lambda>(rubix, solved). rubix_above n rubix)"
  unfolding h_setup_def Let_def
  apply (rule keeps_bind[OF keeps_Rubix2D_init])
  apply (intro keeps_bind[OF keeps_deepcopy])
  apply (rule keeps_bind[OF keeps_is_solved])
  apply (rule keeps_return)
  apply (simp add: rubix_above_def)
  done

lemma heap_ok_above: "heap_ok h \<Longrightarrow> above (next_addr h) h"
  by (simp add: heap_ok_def above_def)

lemma breath_first_search_frame:
  assumes "heap_ok h"
    and "h_breath_first_search fuel top_in front_in left_in right_in back_in bottom_in h = (res, h')"
  shows "same_below (next_addr h) h h'"
proof -
  let ?n = "next_addr h"
  obtain r1 h1 where s: "h_setup top_in front_in left_in right_in back_in bottom_in h = (r1, h1)"
    by (cases "h_setup top_in front_in left_in right_in back_in bottom_in h")
  note k = keepsD[OF keeps_setup heap_ok_above[OF assms(1)] s]
  show ?thesis
  proof (cases r1)
    case (Inl e)
    with assms(2) s k show ?thesis by (simp add: h_breath_first_search_def)
  next
    case (Inr v)
    obtain rubix solved where v: "v = (rubix, solved)" by (cases v)
    from k(3)[OF Inr] v have ra: "rubix_above ?n rubix" by simp
    show ?thesis
    proof (cases solved)
      case True
      with assms(2) s k Inr v show ?thesis by (simp add: h_breath_first_search_def)
    next
      case False
      with assms(2) s Inr v have "h_bfs_loop fuel [([], rubix)] h1 = (res, h')"
        by (simp add: h_breath_first_search_def)
      from bfs_loop_frame[OF k(1) _ this] ra k(2) show ?thesis
        by (auto simp: queue_above_def intro: same_below_trans)
    qed
  qed
qed

lemma read_row_row_at: "read_row r h = (row_at h r, h)"
  by (simp add: read_row_def row_at_def split: option.splits)

lemma map_h_pure:
  assumes "\<And>x h. f x h = (g h x, h)"
  shows "map_h f xs h = (map_e (g h) xs, h)"
proof (induction xs)
  case Nil
  show ?case by (simp add: return_h_def)
next
  case (Cons x xs)
  have fx: "f x h = (g h x, h)" by (rule assms)
  show ?case
  proof (cases "g h x")
    case (Inl e)
    then show ?thesis by (simp add: bind_h_def bind_e_def fx)
  next
    case (Inr y)
    then show ?thesis
      by (cases "map_e (g h) xs") (simp_all add: bind_h_def bind_e_def fx Cons.IH return_h_def)
  qed
qed

lemma map_h_read_row: "map_h read_row rs h = (map_e (row_at h) rs, h)"
  by (rule map_h_pure) (rule read_row_row_at)

lemma map_e_cong_set: "(\<And>x. x \<in> set xs \<Longrightarrow> f x = g x) \<Longrightarrow> map_e f xs = map_e g xs"
  by (induction xs) simp_all

lemma rows_value_same:
  assumes "\<forall>r\<in>set rs. row_objs h' r = row_objs h r"
  shows "fst (map_h read_row rs h') = fst (map_h read_row rs h)"
proof -
  have "map_e (row_at h') rs = map_e (row_at h) rs"
    by (rule map_e_cong_set) (use assms in \<open>simp add: row_at_def\<close>)
  then show ?thesis by (simp add: map_h_read_row)
qed

lemma grid_value_same:
  assumes "heap_ok h" "same_below (next_addr h) h h'" "g < next_addr h"
  shows "fst (grid_value g h') = fst (grid_value g h)"
proof (cases "grid_objs h g")
  case None
  with assms show ?thesis
    by (simp add: grid_value_def bind_h_def read_grid_def same_below_def)
next
  case (Some rs)
  with assms have g': "grid_objs h' g = Some rs" by (simp add: same_below_def)
  from Some assms have "\<forall>r\<in>set rs. row_objs h' r = row_objs h r"
    by (auto simp: heap_ok_def same_below_def)
  from rows_value_same[OF this] Some g' show ?thesis
    by (simp add: grid_value_def bind_h_def read_grid_def)
qed


text \<open>
  C10. Run on a well-formed heap with any six addresses and any fuel, the solver leaves
  every list object that existed when it was called as it was, whether the run returns,
  raises or uses up its fuel; so each grid that existed then, the six arguments among
  them, reads as before.
\<close>

theorem solver_leaves_old_objects_unchanged:
  assumes "heap_ok h"
  shows "let h' = snd (h_breath_first_search fuel top_in front_in left_in right_in back_in bottom_in h)
         in (\<forall>a. a < next_addr h \<longrightarrow> grid_objs h' a = grid_objs h a \<and> row_objs h' a = row_objs h a) \<and>
            (\<forall>g. g < next_addr h \<longrightarrow> fst (grid_value g h') = fst (grid_value g h))"
proof -
  define h' where
    "h' = snd (h_breath_first_search fuel top_in front_in left_in right_in back_in bottom_in h)"
  have sb: "same_below (next_addr h) h h'"
    unfolding h'_def
    by (rule breath_first_search_frame[OF assms]) (rule prod.collapse[symmetric])
  have 1: "\<forall>a. a < next_addr h \<longrightarrow> grid_objs h' a = grid_objs h a \<and> row_objs h' a = row_objs h a"
    using sb unfolding same_below_def .
  have 2: "\<forall>g. g < next_addr h \<longrightarrow> fst (grid_value g h') = fst (grid_value g h)"
    using grid_value_same[OF assms sb] by blast
  from 1 2 show ?thesis
    unfolding Let_def h'_def by (rule conjI)
qed

lemmas heap_eval = store_state_def empty_heap_def new_grid_value_def bind_h_def return_h_def
  new_grid_def new_row_def write_grid_def

lemma scrambled_heap_next: "next_addr scrambled_heap = 24"
  by (simp add: scrambled_heap_def scrambled_def heap_eval)

lemma scrambled_heap_ok: "heap_ok scrambled_heap"
  unfolding heap_ok_def
  by (simp add: scrambled_heap_def scrambled_def heap_eval)


lemma store_state_scrambled: "fst (store_state scrambled empty_heap) = Inr scrambled_refs"
  by (simp add: scrambled_def scrambled_refs_def heap_eval)

lemma repeat_h_numeral:
  "repeat_h 1 body = bind_h body (\<lambda>_. return_h ())"
  "repeat_h 3 body = bind_h body (\<lambda>_. bind_h body (\<lambda>_. bind_h body (\<lambda>_. return_h ())))"
  by (simp_all add: eval_nat_numeral)

lemma funpow_numeral:
  "(f ^^ 1) x = f x" "(f ^^ 3) x = f (f (f x))"
  by (simp_all add: eval_nat_numeral)

lemmas run_eval = heap_eval lift_e_def read_row_def read_grid_def write_row_def grid_value_def
  h_getrow_def h_setrow_def deepcopy_row_def deepcopy_grid_def deepcopy_rubix_def
  empty_memo_def h_rotate_arr_def h_rotate_x_once_def h_rubix_rotate_x_def h_rubix_value_def
  h_rotate_side_def getitem_def setitem_def py_index_def bind_e_def rotate_arr_def
  rotate_arr_once_literal repeat_h_numeral funpow_numeral

text \<open>
  The heap model at work: a deep copy of the cube one move from solved, turned by move 10,
  reads as the solved cube.
\<close>

lemma heap_move_10_solves:
  "fst (bind_h (deepcopy_rubix scrambled_refs)
          (\<lambda>copied. bind_h (h_rotate_side 10 copied) h_rubix_value) scrambled_heap) =
   Inr Rubix2D_init"
  by (simp add: scrambled_refs_def scrambled_heap_def scrambled_def run_eval init_literal)

lemma scrambled_front_value: "fst (grid_value 16 scrambled_heap) = Inr (front scrambled)"
  by (simp add: grid_value_def read_grid_def read_row_def scrambled_heap_def scrambled_def
        heap_eval)

theorem solver_leaves_old_objects_unchanged_witness:
  "heap_ok scrambled_heap \<and> (16::nat) < next_addr scrambled_heap \<and>
   fst (grid_value 16 (snd (h_breath_first_search 1 0 16 8 12 20 4 scrambled_heap))) =
     Inr (front scrambled)"
proof -
  have lt: "(16::nat) < next_addr scrambled_heap"
    by (simp add: scrambled_heap_next)
  from solver_leaves_old_objects_unchanged [OF scrambled_heap_ok, of 1 0 16 8 12 20 4]
  have "\<forall>g. g < next_addr scrambled_heap \<longrightarrow>
          fst (grid_value g (snd (h_breath_first_search 1 0 16 8 12 20 4 scrambled_heap))) =
          fst (grid_value g scrambled_heap)"
    unfolding Let_def by (rule conjunct2)
  with lt have "fst (grid_value 16 (snd (h_breath_first_search 1 0 16 8 12 20 4 scrambled_heap))) =
          fst (grid_value 16 scrambled_heap)"
    by blast
  with scrambled_heap_ok lt scrambled_front_value show ?thesis
    by simp
qed

end
